theory Spec2Isabelle
  imports Complex_Main
begin

section \<open>Data model of the move service\<close>

text \<open>
  The development embeds \<^verbatim>\<open>src/services/moveService.ts\<close>: the position
  conversions, \<^verbatim>\<open>chooseAIMove\<close>, \<^verbatim>\<open>handleGameOver\<close> and
  \<^verbatim>\<open>executeMove\<close>. The relational tables are an explicit store that every
  operation takes and returns; a thrown error is a value, returned together with the
  store as it was when the error was thrown (rows saved before the throw stay saved).
\<close>

subsection \<open>Enumerations declared by the models and the error factories\<close>

text \<open>Modelled from the spec: the enum \<^verbatim>\<open>GameStatus\<close> of \<^verbatim>\<open>models/Game\<close>
  (the migration lists 'ongoing', 'completed', 'abandoned', 'timed out').\<close>

datatype GameStatus = ONGOING | COMPLETED | ABANDONED | TIMED_OUT

text \<open>Modelled from the spec: the enum \<^verbatim>\<open>GameType\<close> of \<^verbatim>\<open>models/Game\<close>.\<close>

datatype GameType = PVP | PVE

text \<open>Modelled from the spec: the enum \<^verbatim>\<open>AIDifficulty\<close> of \<^verbatim>\<open>models/Game\<close>
  (the migration lists 'absent', 'easy', 'hard').\<close>

datatype AIDifficulty = ABSENT | EASY | HARD

text \<open>Modelled from the spec: the members of \<^verbatim>\<open>moveErrorType\<close>,
  \<^verbatim>\<open>gameErrorType\<close> and \<^verbatim>\<open>authErrorType\<close> that \<^verbatim>\<open>executeMove\<close> throws;
  the factories that declare them are not part of the sources at hand.\<close>

datatype moveErrorType = GAME_NOT_FOUND | FAILED_PARSING | NOT_VALID_ARRAY | NOT_VALID_MOVE

datatype gameErrorType = GAME_NOT_IN_PROGRESS

datatype authErrorType = UNAUTHORIZED

text \<open>What a call can throw: a plain \<^verbatim>\<open>Error\<close> with its message, or an error made
  by one of the three factories.\<close>

datatype error =
    GenericError string
  | MoveError moveErrorType
  | GameError gameErrorType
  | AuthError authErrorType

text \<open>Modelled from the spec: the failure taxonomy of section 4.3 and the kind it
  gives each factory error. A plain \<^verbatim>\<open>Error\<close> has no kind.\<close>

datatype failure_kind =
  GameNotFound | GameNotInProgress | Unauthorized | ParseError | RuleViolation | ResourceError

fun failureKind :: "error \<Rightarrow> failure_kind option" where
  "failureKind (GenericError msg) = None"
| "failureKind (MoveError GAME_NOT_FOUND) = Some GameNotFound"
| "failureKind (MoveError FAILED_PARSING) = Some ParseError"
| "failureKind (MoveError NOT_VALID_ARRAY) = Some RuleViolation"
| "failureKind (MoveError NOT_VALID_MOVE) = Some RuleViolation"
| "failureKind (GameError GAME_NOT_IN_PROGRESS) = Some GameNotInProgress"
| "failureKind (AuthError UNAUTHORIZED) = Some Unauthorized"

subsection \<open>The draughts library\<close>

text \<open>
  \<^verbatim>\<open>rapid-draughts\<close> is an external package. Its types are written out as far as
  the service reads them; its engine is a parameter of every definition below.
\<close>

datatype DraughtsStatus = PLAYING | DRAW | LIGHT_WON | DARK_WON

datatype DraughtsPlayer = LIGHT | DARK

record DraughtsPiece =
  piece_player :: DraughtsPlayer
  king :: bool

record DraughtsMove1D =
  origin :: int
  destination :: int
  captures :: "int list"

text \<open>An entry of a stored board: \<^verbatim>\<open>null\<close>, a string such as "B" or "W" (the
  boards written at game creation), or a square object of the library with its optional
  piece.\<close>

datatype DraughtsSquare1D = JNull | JString string | JSquare "DraughtsPiece option"

text \<open>The stored board array holds squares (a board written back by the service) or
  rows of squares (the 8 by 8 board written at game creation).\<close>

datatype board_cell = Row "DraughtsSquare1D list" | Cell DraughtsSquare1D

text \<open>The parsed column value as far as the service inspects it: \<^verbatim>\<open>savedData?.board\<close>
  is an array, or it is not.\<close>

datatype board_json = NoBoardArray | BoardArray "board_cell list"

text \<open>The column holds a string still to be parsed, or a parsed value.\<close>

datatype stored_board = BoardString string | BoardObject board_json

text \<open>
  The external functions: \<^verbatim>\<open>JSON.parse\<close> (\<open>None\<close> when it throws),
  \<^verbatim>\<open>Draughts.setup()\<close> followed by the copy of the flattened board into the engine,
  the engine's \<^verbatim>\<open>moves\<close>, \<^verbatim>\<open>move\<close>, \<^verbatim>\<open>status\<close>, \<^verbatim>\<open>board\<close> and
  \<^verbatim>\<open>player\<close> (the side to move, which the service does not read), and the two
  computers of \<^verbatim>\<open>ComputerFactory\<close>. The random computer is a function of the engine
  state: one call of \<^verbatim>\<open>executeMove\<close> asks it once, and the function stands for the
  draw made in that call.

  A number of JavaScript is an IEEE double. The type \<open>'n\<close> stands for the doubles, and
  their subtraction, their addition and the double that a decimal literal denotes are
  external functions as well: an amount stored by the service is, rounding included, the
  value of the expression the code evaluates.
\<close>

record ('e, 'n) externals =
  JSON_parse :: "string \<Rightarrow> board_json option"
  dr_setup :: "DraughtsSquare1D list \<Rightarrow> 'e"
  dr_moves :: "'e \<Rightarrow> DraughtsMove1D list"
  dr_move :: "'e \<Rightarrow> DraughtsMove1D \<Rightarrow> 'e"
  dr_status :: "'e \<Rightarrow> DraughtsStatus"
  dr_board :: "'e \<Rightarrow> DraughtsSquare1D list"
  dr_player :: "'e \<Rightarrow> DraughtsPlayer"
  dr_random :: "'e \<Rightarrow> DraughtsMove1D option"
  dr_alphaBeta :: "nat \<Rightarrow> 'e \<Rightarrow> DraughtsMove1D option"
  js_minus :: "'n \<Rightarrow> 'n \<Rightarrow> 'n"
  js_plus :: "'n \<Rightarrow> 'n \<Rightarrow> 'n"
  js_number :: "rat \<Rightarrow> 'n"

subsection \<open>Rows of the three tables\<close>

text \<open>
  Token and score amounts are JavaScript numbers. Times are milliseconds since the epoch;
  a call reads the clock once, as \<open>now\<close>, and the rows it creates carry that time. The
  primary key of a player or a game is its key in the table.
\<close>

record 'n Player =
  tokens :: 'n
  score :: 'n

record Game =
  player_id :: int
  opponent_id :: "int option"
  winner_id :: "int option"
  status :: GameStatus
  ended_at :: "int option"
  gtype :: GameType
  ai_difficulty :: AIDifficulty
  board :: stored_board
  total_moves :: int

record Move =
  move_number :: int
  move_board :: "DraughtsSquare1D list"
  from_position :: string
  to_position :: string
  piece_type :: string
  move_game_id :: int
  user_id :: "int option"
  createdAt :: int

text \<open>The store: players and games by primary key, move rows in insertion order.\<close>

record 'n db =
  players :: "int \<Rightarrow> 'n Player option"
  games :: "int \<Rightarrow> Game option"
  move_rows :: "Move list"

text \<open>What a call returns when it does not throw; fields absent from the returned
  object are \<open>None\<close>.\<close>

record response =
  message :: string
  r_game_id :: int
  r_status :: "GameStatus option"
  r_board :: "DraughtsSquare1D list option"
  moveDescription :: "string option"

definition TIMEOUT_MINUTES :: int where
  "TIMEOUT_MINUTES = 1"

text \<open>\<^verbatim>\<open>const MOVE_COST = 0.02\<close>: the double that the literal denotes.\<close>

definition MOVE_COST :: "('e, 'n) externals \<Rightarrow> 'n" where
  "MOVE_COST D = js_number D (2 / 100)"

section \<open>Position conversion\<close>

text \<open>\<^verbatim>\<open>position.charCodeAt(0)\<close>: \<open>None\<close> is NaN (the empty string).\<close>

definition charCodeAt0 :: "string \<Rightarrow> int option" where
  "charCodeAt0 position = (case position of [] \<Rightarrow> None | c # _ \<Rightarrow> Some (of_char c))"

text \<open>\<^verbatim>\<open>parseInt(position[1])\<close>: the value of a single decimal digit, NaN for any other
  character and for a missing one.\<close>

definition parseInt1 :: "string \<Rightarrow> int option" where
  "parseInt1 position =
     (case position of
        _ # d # _ \<Rightarrow>
          (if (48::nat) \<le> of_char d \<and> of_char d \<le> (57::nat) then Some (of_char d - 48) else None)
      | _ \<Rightarrow> None)"

definition convertPosition :: "string \<Rightarrow> int option" where
  "convertPosition position =
     (case (charCodeAt0 position, parseInt1 position) of
        (Some c, Some d) \<Rightarrow>
          (let file = c - 65; rank = 8 - d in Some (rank * 8 + file))
      | _ \<Rightarrow> None)"

text \<open>The remainder \<^verbatim>\<open>%\<close> of JavaScript takes the sign of the dividend.\<close>

definition js_rem :: "int \<Rightarrow> int \<Rightarrow> int" where
  "js_rem a b = sgn a * (\<bar>a\<bar> mod \<bar>b\<bar>)"

text \<open>The decimal text of an integer inside a template literal.\<close>

fun show_nat :: "nat \<Rightarrow> string" where
  "show_nat n =
     (if n < 10 then [char_of (48 + n)] else show_nat (n div 10) @ [char_of (48 + n mod 10)])"

definition show_int :: "int \<Rightarrow> string" where
  "show_int i = (if i < 0 then CHR ''-'' # show_nat (nat (- i)) else show_nat (nat i))"

definition convertPositionBack :: "int \<Rightarrow> string" where
  "convertPositionBack index =
     (let file = char_of (65 + js_rem index 8);
          rank = 8 - index div 8
      in file # show_int rank)"

section \<open>The move service\<close>

subsection \<open>Table access\<close>

text \<open>\<^verbatim>\<open>Move.findOne\<close> with \<^verbatim>\<open>order: [['createdAt', 'DESC']]\<close>: the matching row
  created last. Among rows of equal creation time the one inserted last is taken (the
  database leaves that choice open).\<close>

fun latest :: "Move list \<Rightarrow> Move option" where
  "latest [] = None"
| "latest (m # ms) =
     (case latest ms of
        None \<Rightarrow> Some m
      | Some m' \<Rightarrow> if createdAt m \<le> createdAt m' then Some m' else Some m)"

definition Move_findOne :: "'n db \<Rightarrow> int \<Rightarrow> int option \<Rightarrow> Move option" where
  "Move_findOne d gameId userId =
     latest (filter (\<lambda>m. move_game_id m = gameId \<and> user_id m = userId) (move_rows d))"

definition Move_create :: "'n db \<Rightarrow> Move \<Rightarrow> 'n db" where
  "Move_create d row = d\<lparr>move_rows := move_rows d @ [row]\<rparr>"

text \<open>\<^verbatim>\<open>save()\<close> writes the columns changed on the instance. On every path of the
  service the other columns of the row still hold what the instance was read with, so
  the instance is written whole.\<close>

definition Game_save :: "'n db \<Rightarrow> int \<Rightarrow> Game \<Rightarrow> 'n db" where
  "Game_save d gameId game = d\<lparr>games := (games d)(gameId \<mapsto> game)\<rparr>"

definition Player_save :: "'n db \<Rightarrow> int \<Rightarrow> 'n Player \<Rightarrow> 'n db" where
  "Player_save d playerId p = d\<lparr>players := (players d)(playerId \<mapsto> p)\<rparr>"

text \<open>Columns read off the store: the token balance and the score of a player, the
  move counter of a game, and the records of a game in insertion order.\<close>

definition balance :: "'n db \<Rightarrow> int \<Rightarrow> 'n option" where
  "balance d playerId = map_option tokens (players d playerId)"

definition points :: "'n db \<Rightarrow> int \<Rightarrow> 'n option" where
  "points d playerId = map_option score (players d playerId)"

definition totalMoves :: "'n db \<Rightarrow> int \<Rightarrow> int option" where
  "totalMoves d gameId = map_option total_moves (games d gameId)"


subsection \<open>Board helpers\<close>

text \<open>\<^verbatim>\<open>savedBoard.flat()\<close> removes one level of nesting.\<close>

definition flat :: "board_cell list \<Rightarrow> DraughtsSquare1D list" where
  "flat savedBoard = concat (map (\<lambda>c. case c of Row xs \<Rightarrow> xs | Cell x \<Rightarrow> [x]) savedBoard)"

text \<open>\<^verbatim>\<open>savedBoard[i]?.piece?.king ? 'king' : 'single'\<close>; an index outside the array,
  a row, a string and \<^verbatim>\<open>null\<close> all give 'single'.\<close>

definition pieceType :: "board_cell list \<Rightarrow> int \<Rightarrow> string" where
  "pieceType savedBoard i =
     (if 0 \<le> i \<and> nat i < length savedBoard then
        (case savedBoard ! nat i of
           Cell (JSquare (Some p)) \<Rightarrow> if king p then ''king'' else ''single''
         | _ \<Rightarrow> ''single'')
      else ''single'')"

text \<open>\<^verbatim>\<open>typeof game.board === 'string' ? JSON.parse(game.board) : game.board\<close>; \<open>None\<close>
  when \<^verbatim>\<open>JSON.parse\<close> throws.\<close>

definition parseBoard :: "('e, 'n) externals \<Rightarrow> stored_board \<Rightarrow> board_json option" where
  "parseBoard D b = (case b of BoardString s \<Rightarrow> JSON_parse D s | BoardObject j \<Rightarrow> Some j)"

definition isGameOver :: "DraughtsStatus \<Rightarrow> bool" where
  "isGameOver st = (st \<in> set [LIGHT_WON, DARK_WON, DRAW])"

subsection \<open>chooseAIMove\<close>

definition chooseAIMove :: "('e, 'n) externals \<Rightarrow> 'e \<Rightarrow> AIDifficulty \<Rightarrow> DraughtsMove1D option" where
  "chooseAIMove D draughts difficulty =
     (let validMoves = dr_moves D draughts in
      if length validMoves = 0 then None
      else (case difficulty of
              EASY \<Rightarrow> dr_random D draughts
            | HARD \<Rightarrow> dr_alphaBeta D 5 draughts
            | ABSENT \<Rightarrow> None))"

subsection \<open>The computers of the library\<close>

text \<open>
  The two computers belong to \<^verbatim>\<open>rapid-draughts\<close>, which the repository imports
  and does not contain. The service is verified against any answer they give. What section
  4.2 of the spec says of them is written out here, for the one property that is about
  their answers.
\<close>

text \<open>Modelled from the spec: the Easy selector, "uniform-random choice among
  legalMoves" with an injected random source; \<open>draw\<close> is the number the source
  yields for this choice.\<close>

definition randomComputer :: "('e, 'n) externals \<Rightarrow> nat \<Rightarrow> 'e \<Rightarrow> DraughtsMove1D option" where
  "randomComputer D draw e =
     (let legalMoves = dr_moves D e
      in if legalMoves = [] then None else Some (legalMoves ! (draw mod length legalMoves)))"

text \<open>Modelled from the spec: the leaf evaluation of the Hard selector, a "weighted
  piece count" in which the weights of a man and of a king are named constants. Pieces
  of \<open>side\<close> count positive, the others negative.\<close>

definition MAN_WEIGHT :: int where
  "MAN_WEIGHT = 1"

definition KING_WEIGHT :: int where
  "KING_WEIGHT = 2"

definition INFINITY :: int where
  "INFINITY = 1000"

definition squareValue :: "DraughtsPlayer \<Rightarrow> DraughtsSquare1D \<Rightarrow> int" where
  "squareValue side sq =
     (case sq of
        JSquare (Some p) \<Rightarrow>
          (let w = (if king p then KING_WEIGHT else MAN_WEIGHT)
           in if piece_player p = side then w else - w)
      | _ \<Rightarrow> 0)"

definition evaluate :: "('e, 'n) externals \<Rightarrow> DraughtsPlayer \<Rightarrow> 'e \<Rightarrow> int" where
  "evaluate D side e = sum_list (map (squareValue side) (dr_board D e))"

text \<open>Modelled from the spec: "alpha-beta minimax" with cut-offs. The loops run over
  the legal moves of a position; \<open>child\<close> gives the value of the position after a
  move for a window.\<close>

fun maxLoop :: "(int \<Rightarrow> int \<Rightarrow> 'm \<Rightarrow> int) \<Rightarrow> int \<Rightarrow> int \<Rightarrow> int \<Rightarrow> 'm list \<Rightarrow> int" where
  "maxLoop child best alpha beta [] = best"
| "maxLoop child best alpha beta (m # ms) =
     (let v = max best (child alpha beta m);
          a = max alpha v
      in if beta \<le> a then v else maxLoop child v a beta ms)"

fun minLoop :: "(int \<Rightarrow> int \<Rightarrow> 'm \<Rightarrow> int) \<Rightarrow> int \<Rightarrow> int \<Rightarrow> int \<Rightarrow> 'm list \<Rightarrow> int" where
  "minLoop child best alpha beta [] = best"
| "minLoop child best alpha beta (m # ms) =
     (let v = min best (child alpha beta m);
          b = min beta v
      in if b \<le> alpha then v else minLoop child v alpha b ms)"

text \<open>The value of a position searched \<open>depth\<close> plies deep. "A side with an empty
  legal-move set loses immediately."\<close>

primrec alphaBeta ::
  "('e, 'n) externals \<Rightarrow> DraughtsPlayer \<Rightarrow> nat \<Rightarrow> int \<Rightarrow> int \<Rightarrow> bool \<Rightarrow> 'e \<Rightarrow> int" where
  "alphaBeta D side 0 = (\<lambda>alpha beta maximizing e. evaluate D side e)"
| "alphaBeta D side (Suc depth) =
     (\<lambda>alpha beta maximizing e.
        if dr_moves D e = [] then (if maximizing then - INFINITY else INFINITY)
        else if maximizing then
          maxLoop (\<lambda>a b m. alphaBeta D side depth a b False (dr_move D e m))
            (- INFINITY) alpha beta (dr_moves D e)
        else
          minLoop (\<lambda>a b m. alphaBeta D side depth a b True (dr_move D e m))
            INFINITY alpha beta (dr_moves D e))"

text \<open>The loop at the root keeps the first move of the best value found.\<close>

fun rootLoop :: "(int \<Rightarrow> int \<Rightarrow> 'm \<Rightarrow> int) \<Rightarrow> 'm \<Rightarrow> int \<Rightarrow> int \<Rightarrow> int \<Rightarrow> 'm list \<Rightarrow> 'm" where
  "rootLoop child bestMove best alpha beta [] = bestMove"
| "rootLoop child bestMove best alpha beta (m # ms) =
     (let v = child alpha beta m
      in if best < v then rootLoop child m v (max alpha v) beta ms
         else rootLoop child bestMove best alpha beta ms)"

text \<open>Modelled from the spec: the Hard selector, a search of fixed depth
  \<open>maxDepth\<close> plies (5 in the service) for the side to move.\<close>

definition alphaBetaComputer :: "('e, 'n) externals \<Rightarrow> nat \<Rightarrow> 'e \<Rightarrow> DraughtsMove1D option" where
  "alphaBetaComputer D maxDepth e =
     (case dr_moves D e of
        [] \<Rightarrow> None
      | m # ms \<Rightarrow>
          Some (rootLoop (\<lambda>a b x. alphaBeta D (dr_player D e) (maxDepth - 1) a b False (dr_move D e x))
                  m (- INFINITY - 1) (- INFINITY) INFINITY (m # ms)))"

text \<open>An engine whose computers are the two above.\<close>

definition withSpecComputers :: "('e, 'n) externals \<Rightarrow> nat \<Rightarrow> ('e, 'n) externals" where
  "withSpecComputers D draw =
     D\<lparr>dr_random := randomComputer D draw, dr_alphaBeta := alphaBetaComputer D\<rparr>"

subsection \<open>handleGameOver\<close>

text \<open>The source reads the primary key from the game instance; here it is passed
  along. \<open>now\<close> is the value of \<^verbatim>\<open>new Date()\<close>.\<close>

definition gameOverWinner :: "DraughtsStatus \<Rightarrow> Game \<Rightarrow> int option \<times> string" where
  "gameOverWinner st game =
     (if st = LIGHT_WON then (Some (player_id game), ''You have won!'')
      else if st = DARK_WON then
        (if gtype game = PVE then (Some (- 1), ''The AI has won!'')
         else (opponent_id game, ''Your opponent has won!''))
      else (None, ''The game ended in a draw!''))"

definition handleGameOver ::
  "('e, 'n) externals \<Rightarrow> int \<Rightarrow> int \<Rightarrow> 'e \<Rightarrow> Game \<Rightarrow> 'n db \<Rightarrow>
   (string \<times> DraughtsSquare1D list) \<times> 'n db" where
  "handleGameOver D now gameId draughts game d =
     (let (winnerId, result) = gameOverWinner (dr_status D draughts) game;
          game1 = game\<lparr>status := COMPLETED, ended_at := Some now, winner_id := winnerId\<rparr>;
          d1 = Game_save d gameId game1;
          d2 = (case winnerId of
                  None \<Rightarrow> d1
                | Some w \<Rightarrow>
                    (case players d1 w of
                       None \<Rightarrow> d1
                     | Some winner \<Rightarrow> Player_save d1 w
                         (winner\<lparr>score := js_plus D (score winner) (js_number D 1)\<rparr>)))
      in ((result, dr_board D draughts), d2))"

definition gameOverResponse :: "int \<Rightarrow> string \<times> DraughtsSquare1D list \<Rightarrow> response" where
  "gameOverResponse gameId res =
     \<lparr>message = fst res, r_game_id = gameId, r_status = None, r_board = Some (snd res),
      moveDescription = Some (''The game has ended: '' @ fst res)\<rparr>"

subsection \<open>executeMove\<close>

text \<open>The actor's instance after \<^verbatim>\<open>player.tokens -= MOVE_COST\<close>.\<close>

abbreviation debited :: "('e, 'n) externals \<Rightarrow> 'n Player \<Rightarrow> 'n Player" where
  "debited D p \<equiv> p\<lparr>tokens := js_minus D (tokens p) (MOVE_COST D)\<rparr>"

text \<open>Lines 185 to 210: the game is closed as timed out and the actor, read again from
  the table, loses half a point.\<close>

definition timedOut ::
  "('e, 'n) externals \<Rightarrow> int \<Rightarrow> int \<Rightarrow> int \<Rightarrow> Game \<Rightarrow> 'n db \<Rightarrow> (error + response) \<times> 'n db" where
  "timedOut D now gameId playerId game d =
     (let game1 = game\<lparr>status := TIMED_OUT, ended_at := Some now,
                       winner_id :=
                         (if opponent_id game = None then Some (- 1)
                          else if player_id game = playerId then opponent_id game
                          else Some (player_id game))\<rparr>;
          d1 = Game_save d gameId game1;
          d2 = (case players d1 playerId of
                  None \<Rightarrow> d1
                | Some p \<Rightarrow> Player_save d1 playerId
                              (p\<lparr>score := js_minus D (score p) (js_number D (1 / 2))\<rparr>))
      in (Inr \<lparr>message = ''The game has ended due to a timeout after '' @ show_int TIMEOUT_MINUTES
                          @ '' minutes.'',
               r_game_id = gameId, r_status = Some (status game1), r_board = None,
               moveDescription = None\<rparr>, d2))"

text \<open>Lines 266 to 278: when the chosen move repeats the last move of the AI, the first
  legal move that differs from it is taken, or none.\<close>

definition repeatsLast :: "Move option \<Rightarrow> DraughtsMove1D \<Rightarrow> bool" where
  "repeatsLast lastAIMove aiMove =
     (case lastAIMove of
        None \<Rightarrow> False
      | Some l \<Rightarrow>
          from_position l \<noteq> [] \<and> to_position l \<noteq> [] \<and>
          Some (origin aiMove) = convertPosition (from_position l) \<and>
          Some (destination aiMove) = convertPosition (to_position l))"

definition avoidRepetition ::
  "('e, 'n) externals \<Rightarrow> 'e \<Rightarrow> Move option \<Rightarrow> DraughtsMove1D option \<Rightarrow> DraughtsMove1D option" where
  "avoidRepetition D draughts lastAIMove aiMove =
     (case aiMove of
        None \<Rightarrow> None
      | Some a \<Rightarrow>
          if repeatsLast lastAIMove a then
            (let validMoves =
                   filter (\<lambda>m. origin m \<noteq> origin a \<or> destination m \<noteq> destination a)
                     (dr_moves D draughts)
             in (case validMoves of [] \<Rightarrow> None | m # _ \<Rightarrow> Some m))
          else Some a)"

text \<open>Lines 256 to 278: the move the AI is going to play, if any.\<close>

definition aiMoveToPlay ::
  "('e, 'n) externals \<Rightarrow> 'e \<Rightarrow> int \<Rightarrow> AIDifficulty \<Rightarrow> 'n db \<Rightarrow> DraughtsMove1D option" where
  "aiMoveToPlay D draughts gameId difficulty d =
     (let lastAIMove = Move_findOne d gameId None;
          aiMove = chooseAIMove D draughts difficulty
      in avoidRepetition D draughts lastAIMove aiMove)"

text \<open>Lines 253 to 325, for a PvE game: \<open>Some\<close> response when the AI has moved,
  \<open>None\<close> when it has no move and control falls through to the last return.
  \<open>player\<close> is the actor's instance, already debited once; \<open>draughts\<close> is the engine
  after the actor's move.\<close>

definition aiTurn ::
  "('e, 'n) externals \<Rightarrow> int \<Rightarrow> int \<Rightarrow> string \<Rightarrow> string \<Rightarrow> int \<Rightarrow> 'n Player \<Rightarrow>
   Game \<Rightarrow> board_cell list \<Rightarrow> int \<Rightarrow> int \<Rightarrow> 'e \<Rightarrow> 'n db \<Rightarrow> response option \<times> 'n db" where
  "aiTurn D now gameId from to playerId player game savedBoard originIdx moveNumber draughts d =
     (let aiMove = aiMoveToPlay D draughts gameId (ai_difficulty game) d
      in (case aiMove of
            None \<Rightarrow> (None, d)
          | Some a \<Rightarrow>
              (let draughts1 = dr_move D draughts a;
                   game1 = game\<lparr>board := BoardObject (BoardArray (map Cell (dr_board D draughts1))),
                                total_moves := total_moves game + 1\<rparr>;
                   d1 = Game_save d gameId game1;
                   player1 = player\<lparr>tokens := js_minus D (tokens player) (MOVE_COST D)\<rparr>;
                   d2 = Player_save d1 playerId player1;
                   fromPositionAI = convertPositionBack (origin a);
                   toPositionAI = convertPositionBack (destination a);
                   d3 = Move_create d2
                          \<lparr>move_number = moveNumber + 1,
                           move_board = dr_board D draughts1,
                           from_position = fromPositionAI,
                           to_position = toPositionAI,
                           piece_type = pieceType savedBoard (origin a),
                           move_game_id = gameId,
                           user_id = None,
                           createdAt = now\<rparr>
               in if isGameOver (dr_status D draughts1) then
                    (let (res, d4) = handleGameOver D now gameId draughts1 game1 d3
                     in (Some (gameOverResponse gameId res), d4))
                  else
                    (Some \<lparr>message = ''Move successfully executed'', r_game_id = gameId,
                           r_status = None, r_board = None,
                           moveDescription = Some
                             (''You moved a '' @ pieceType savedBoard originIdx @ '' from '' @ from
                              @ '' to '' @ to @ ''. '' @ ''AI moved a ''
                              @ pieceType savedBoard (origin a) @ '' from '' @ fromPositionAI
                              @ '' to '' @ toPositionAI @ ''.'')\<rparr>, d3))))"

text \<open>Lines 218 to 333: the actor's move is applied and recorded, then the game is
  closed if it is over, else the AI answers in a PvE game.\<close>

definition playerTurn ::
  "('e, 'n) externals \<Rightarrow> int \<Rightarrow> int \<Rightarrow> string \<Rightarrow> string \<Rightarrow> int \<Rightarrow> 'n Player \<Rightarrow>
   Game \<Rightarrow> board_cell list \<Rightarrow> int \<Rightarrow> DraughtsMove1D \<Rightarrow> 'e \<Rightarrow> 'n db \<Rightarrow>
   (error + response) \<times> 'n db" where
  "playerTurn D now gameId from to playerId player game savedBoard originIdx moveToMake draughts d =
     (let draughts1 = dr_move D draughts moveToMake;
          game1 = game\<lparr>board := BoardObject (BoardArray (map Cell (dr_board D draughts1))),
                       total_moves := (if total_moves game = 0 then 0 else total_moves game) + 1\<rparr>;
          d1 = Game_save d gameId game1;
          moveNumber = total_moves game1;
          d2 = Move_create d1
                 \<lparr>move_number = moveNumber,
                  move_board = dr_board D draughts1,
                  from_position = from,
                  to_position = to,
                  piece_type = pieceType savedBoard originIdx,
                  move_game_id = gameId,
                  user_id = Some playerId,
                  createdAt = now\<rparr>
      in if isGameOver (dr_status D draughts1) then
           (let (res, d3) = handleGameOver D now gameId draughts1 game1 d2
            in (Inr (gameOverResponse gameId res), d3))
         else
           (case (if gtype game1 = PVE
                  then aiTurn D now gameId from to playerId player game1 savedBoard originIdx
                         moveNumber draughts1 d2
                  else (None, d2)) of
              (Some r, d3) \<Rightarrow> (Inr r, d3)
            | (None, d3) \<Rightarrow>
                (Inr \<lparr>message = ''Move successfully executed'', r_game_id = gameId,
                      r_status = None, r_board = None,
                      moveDescription = Some
                        (''You moved a '' @ pieceType savedBoard originIdx @ '' from '' @ from
                         @ '' to '' @ to @ ''.'')\<rparr>, d3)))"

text \<open>Lines 170 to 216: the actor's last recorded move in this game decides the timeout
  and the repetition guard. The elapsed time in minutes exceeds \<^verbatim>\<open>TIMEOUT_MINUTES\<close>
  exactly when the elapsed milliseconds exceed 60000 times it.\<close>

definition afterValidation ::
  "('e, 'n) externals \<Rightarrow> int \<Rightarrow> int \<Rightarrow> string \<Rightarrow> string \<Rightarrow> int \<Rightarrow> 'n Player \<Rightarrow>
   Game \<Rightarrow> board_cell list \<Rightarrow> int \<Rightarrow> DraughtsMove1D \<Rightarrow> 'e \<Rightarrow> 'n db \<Rightarrow>
   (error + response) \<times> 'n db" where
  "afterValidation D now gameId from to playerId player game savedBoard originIdx moveToMake draughts d =
     (let lastMove = Move_findOne d gameId (Some playerId)
      in (case lastMove of
            None \<Rightarrow>
              playerTurn D now gameId from to playerId player game savedBoard originIdx
                moveToMake draughts d
          | Some l \<Rightarrow>
              if now - createdAt l > 1000 * 60 * TIMEOUT_MINUTES then
                timedOut D now gameId playerId game d
              else if from_position l = from \<and> to_position l = to then
                (Inl (MoveError NOT_VALID_MOVE), d)
              else
                playerTurn D now gameId from to playerId player game savedBoard originIdx
                  moveToMake draughts d))"

text \<open>Lines 160 to 165: the legal move with the submitted origin and destination, if
  there is one. A position that converts to NaN equals no square.\<close>

definition resolveMove :: "('e, 'n) externals \<Rightarrow> 'e \<Rightarrow> string \<Rightarrow> string \<Rightarrow> DraughtsMove1D option" where
  "resolveMove D draughts from to =
     (let originN = convertPosition from;
          destinationN = convertPosition to;
          validMoves = dr_moves D draughts
      in find (\<lambda>m. Some (origin m) = originN \<and> Some (destination m) = destinationN) validMoves)"

text \<open>Lines 101 to 168, then the stages above.\<close>

definition executeMove ::
  "('e, 'n) externals \<Rightarrow> int \<Rightarrow> int \<Rightarrow> string \<Rightarrow> string \<Rightarrow> int \<Rightarrow> 'n db \<Rightarrow>
   (error + response) \<times> 'n db" where
  "executeMove D now gameId from to playerId d =
     (case players d playerId of
        None \<Rightarrow> (Inl (GenericError ''Player not found.''), d)
      | Some player \<Rightarrow>
          (case games d gameId of
             None \<Rightarrow> (Inl (MoveError GAME_NOT_FOUND), d)
           | Some game \<Rightarrow>
               if status game \<noteq> ONGOING then (Inl (GameError GAME_NOT_IN_PROGRESS), d)
               else if player_id game \<noteq> playerId \<and> opponent_id game \<noteq> Some playerId then
                 (Inl (AuthError UNAUTHORIZED), d)
               else
                 (let player1 = player\<lparr>tokens := js_minus D (tokens player) (MOVE_COST D)\<rparr>;
                      d1 = Player_save d playerId player1
                  in (case parseBoard D (board game) of
                        None \<Rightarrow> (Inl (MoveError FAILED_PARSING), d1)
                      | Some NoBoardArray \<Rightarrow> (Inl (MoveError NOT_VALID_ARRAY), d1)
                      | Some (BoardArray savedBoard) \<Rightarrow>
                          (let draughts = dr_setup D (flat savedBoard)
                           in (case resolveMove D draughts from to of
                                 None \<Rightarrow> (Inl (MoveError NOT_VALID_MOVE), d1)
                               | Some moveToMake \<Rightarrow>
                                   afterValidation D now gameId from to playerId player1 game
                                     savedBoard (origin moveToMake) moveToMake draughts d1))))))"

section \<open>Derived notions used by the theorems\<close>

text \<open>The AI plays in a call exactly when the game is not over after the actor's move,
  the game is PvE and lines 256 to 278 leave a move (the conditions of lines 242, 253 and
  280). \<open>draughts1\<close> is the engine after the actor's move.\<close>

definition aiReplies :: "('e, 'n) externals \<Rightarrow> 'e \<Rightarrow> Game \<Rightarrow> int \<Rightarrow> 'n db \<Rightarrow> bool" where
  "aiReplies D draughts1 game gameId d =
     (\<not> isGameOver (dr_status D draughts1) \<and> gtype game = PVE \<and>
      aiMoveToPlay D draughts1 gameId (ai_difficulty game) d \<noteq> None)"







section \<open>A scripted engine and a small store\<close>

text \<open>
  The concrete instances of the theorems below run the service against an engine whose
  answers are scripted: the state counts the moves applied since setup, \<open>ms0\<close> are the
  legal moves at setup and \<open>ms1\<close> those after a move, \<open>st1\<close> and \<open>st2\<close> are the
  status after one and after two moves, \<open>ai\<close> is what both computers answer, and
  \<^verbatim>\<open>JSON.parse\<close> rejects every string. Its numbers are the expressions themselves:
  a stored amount shows which subtractions and additions of doubles produced it.
\<close>

datatype js_expr = Num rat | Minus js_expr js_expr | Plus js_expr js_expr

definition scripted ::
  "DraughtsMove1D list \<Rightarrow> DraughtsMove1D list \<Rightarrow> DraughtsStatus \<Rightarrow> DraughtsStatus \<Rightarrow>
   DraughtsMove1D option \<Rightarrow> (nat, js_expr) externals" where
  "scripted ms0 ms1 st1 st2 ai =
     \<lparr>JSON_parse = (\<lambda>s. None),
      dr_setup = (\<lambda>b. 0),
      dr_moves = (\<lambda>n. if n = 0 then ms0 else ms1),
      dr_move = (\<lambda>n m. Suc n),
      dr_status = (\<lambda>n. if n = 0 then PLAYING else if n = 1 then st1 else st2),
      dr_board = (\<lambda>n. []),
      dr_player = (\<lambda>n. if even n then LIGHT else DARK),
      dr_random = (\<lambda>n. ai),
      dr_alphaBeta = (\<lambda>k n. ai),
      js_minus = Minus,
      js_plus = Plus,
      js_number = Num\<rparr>"

definition mv :: "int \<Rightarrow> int \<Rightarrow> DraughtsMove1D" where
  "mv a b = \<lparr>origin = a, destination = b, captures = []\<rparr>"

text \<open>Game 7 is a running PvP game of players 1 and 2, game 8 a running PvE game of
  player 1; no move has been recorded.\<close>

definition pvpGame :: Game where
  "pvpGame = \<lparr>player_id = 1, opponent_id = Some 2, winner_id = None, status = ONGOING,
     ended_at = None, gtype = PVP, ai_difficulty = ABSENT,
     board = BoardObject (BoardArray []), total_moves = 0\<rparr>"

definition pveGame :: Game where
  "pveGame = \<lparr>player_id = 1, opponent_id = None, winner_id = None, status = ONGOING,
     ended_at = None, gtype = PVE, ai_difficulty = HARD,
     board = BoardObject (BoardArray []), total_moves = 0\<rparr>"

text \<open>Game 9 is a running PvP game whose stored board is a string that does not
  parse.\<close>

definition brokenGame :: Game where
  "brokenGame = \<lparr>player_id = 1, opponent_id = Some 2, winner_id = None, status = ONGOING,
     ended_at = None, gtype = PVP, ai_difficulty = ABSENT,
     board = BoardString ''{'', total_moves = 1\<rparr>"

definition moveRow :: "int \<Rightarrow> int \<Rightarrow> int option \<Rightarrow> string \<Rightarrow> string \<Rightarrow> int \<Rightarrow> Move" where
  "moveRow gameId n userId from to t =
     \<lparr>move_number = n, move_board = [], from_position = from, to_position = to,
      piece_type = ''single'', move_game_id = gameId, user_id = userId, createdAt = t\<rparr>"

text \<open>Players 1 and 2 hold 5 tokens and no points.\<close>

definition store0 :: "js_expr db" where
  "store0 =
     \<lparr>players = (\<lambda>k. if k = 1 \<or> k = 2 then Some \<lparr>tokens = Num 5, score = Num 0\<rparr> else None),
      games = (\<lambda>k. if k = 7 then Some pvpGame else if k = 8 then Some pveGame else None),
      move_rows = []\<rparr>"

text \<open>The same games after one round each: in game 7 player 1 moved A3 to B4 at time 0
  and player 2 answered B6 to A5 at time 1000; in game 8 player 1 moved A3 to B4 and the
  AI answered B6 to A5; in game 9 player 1 moved A3 to B4.\<close>

definition store1 :: "js_expr db" where
  "store1 =
     \<lparr>players = (\<lambda>k. if k = 1 \<or> k = 2 then Some \<lparr>tokens = Num 5, score = Num 0\<rparr> else None),
      games = (\<lambda>k. if k = 7 then Some (pvpGame\<lparr>total_moves := 2\<rparr>)
                    else if k = 8 then Some (pveGame\<lparr>total_moves := 2\<rparr>)
                    else if k = 9 then Some brokenGame else None),
      move_rows =
        [moveRow 7 1 (Some 1) ''A3'' ''B4'' 0, moveRow 7 2 (Some 2) ''B6'' ''A5'' 1000,
         moveRow 8 1 (Some 1) ''A3'' ''B4'' 0, moveRow 8 2 None ''B6'' ''A5'' 1000,
         moveRow 9 1 (Some 1) ''A3'' ''B4'' 0]\<rparr>"

text \<open>The store before the first round when player 1 has no token left.\<close>

definition spentStore :: "js_expr db" where
  "spentStore = store0\<lparr>players := (players store0)(1 \<mapsto> \<lparr>tokens = Num 0, score = Num 0\<rparr>)\<rparr>"

section \<open>Position conversion is a bijection\<close>

lemma show_int_digit:
  assumes "0 \<le> r" "r \<le> 9"
  shows "show_int r = [char_of (48 + r)]"
proof -
  have "show_int r = [char_of (48 + nat r)]"
    using assms by (simp add: show_int_def)
  also have "char_of (48 + nat r) = char_of (int (48 + nat r))"
    by (simp only: char_of_nat)
  also have "int (48 + nat r) = 48 + r"
    using assms by simp
  finally show ?thesis .
qed

lemma of_char_nat_int: "int (of_char c) = of_char c"
  by (simp add: of_char_def horner_sum_eq_sum)

lemma file_range:
  "c \<in> set ''ABCDEFGH'' \<Longrightarrow> 65 \<le> (of_char c :: int) \<and> (of_char c :: int) \<le> 72"
  by auto

lemma rank_range:
  "d \<in> set ''12345678'' \<Longrightarrow> 49 \<le> (of_char d :: int) \<and> (of_char d :: int) \<le> 56"
  by auto

lemma file_char: "0 \<le> f \<Longrightarrow> f \<le> 7 \<Longrightarrow> char_of (65 + f :: int) \<in> set ''ABCDEFGH''"
proof -
  assume "0 \<le> f" "f \<le> 7"
  then have "f \<in> {0, 1, 2, 3, 4, 5, 6, 7}" by auto
  then show ?thesis by (auto simp: char_of_eq_iff)
qed

lemma rank_char: "1 \<le> r \<Longrightarrow> r \<le> 8 \<Longrightarrow> char_of (48 + r :: int) \<in> set ''12345678''"
proof -
  assume "1 \<le> r" "r \<le> 8"
  then have "r \<in> {1, 2, 3, 4, 5, 6, 7, 8}" by auto
  then show ?thesis by (auto simp: char_of_eq_iff)
qed

lemma convertPosition_digit:
  assumes "48 \<le> (of_char d :: int)" "(of_char d :: int) \<le> 57"
  shows "convertPosition (c # d # rest) = Some ((8 - (of_char d - 48)) * 8 + (of_char c - 65))"
proof -
  have "(48::nat) \<le> of_char d \<and> of_char d \<le> (57::nat)"
    using assms unfolding of_char_nat_int[symmetric] by linarith
  then show ?thesis
    by (simp add: convertPosition_def charCodeAt0_def parseInt1_def)
qed

lemma convertPositionBack_cell:
  assumes "0 \<le> f" "f \<le> 7" "1 \<le> r" "r \<le> 8"
  shows "convertPositionBack ((8 - r) * 8 + f) = [char_of (65 + f), char_of (48 + r)]"
proof -
  have nn: "0 \<le> (8 - r) * 8 + f" using assms by simp
  have m: "((8 - r) * 8 + f) mod 8 = f" using assms by presburger
  have d: "((8 - r) * 8 + f) div 8 = 8 - r" using assms by presburger
  have "js_rem ((8 - r) * 8 + f) 8 = f"
    using nn m assms by (cases "(8 - r) * 8 + f = 0") (simp_all add: js_rem_def)
  then show ?thesis
    using assms by (simp add: convertPositionBack_def d show_int_digit)
qed

lemma convertPositionBack_convertPosition:
  assumes c: "c \<in> set ''ABCDEFGH''" and d: "d \<in> set ''12345678''"
  shows "map_option convertPositionBack (convertPosition [c, d]) = Some [c, d]"
proof -
  note fr = file_range[OF c] and rr = rank_range[OF d]
  have "convertPosition [c, d] = Some ((8 - (of_char d - 48)) * 8 + (of_char c - 65))"
    using rr by (intro convertPosition_digit) auto
  moreover have "convertPositionBack ((8 - (of_char d - 48)) * 8 + (of_char c - 65))
     = [char_of (65 + (of_char c - 65 :: int)), char_of (48 + (of_char d - 48 :: int))]"
    using fr rr by (intro convertPositionBack_cell) auto
  ultimately show ?thesis by simp
qed

lemma convertPosition_convertPositionBack:
  assumes a: "0 \<le> i" "i \<le> 63"
  shows "convertPosition (convertPositionBack i) = Some i"
proof -
  define r where "r = 8 - i div 8"
  define f where "f = i mod 8"
  have i: "i = (8 - r) * 8 + f" by (simp add: r_def f_def)
  have b: "0 \<le> f" "f \<le> 7" "1 \<le> r" "r \<le> 8" using a by (auto simp: r_def f_def)
  have "convertPositionBack i = [char_of (65 + f), char_of (48 + r)]"
    unfolding i using b by (rule convertPositionBack_cell)
  moreover have "(of_char (char_of (48 + r)) :: int) = 48 + r" using b by simp
  moreover have "(of_char (char_of (65 + f)) :: int) = 65 + f" using b by simp
  ultimately show ?thesis
    using b by (simp add: convertPosition_digit i)
qed

text \<open>
  Claim C9. The two conversions are inverse bijections between the 64 algebraic positions
  (a file letter A to H followed by a rank digit 1 to 8) and the linear indices 0 to 63:
  such a position converts to an index in that range and converts back to itself, and
  such an index converts to such a position and converts back to itself.
\<close>

theorem convertPosition_bijection:
  "(c \<in> set ''ABCDEFGH'' \<and> d \<in> set ''12345678'' \<longrightarrow>
      (\<exists>i. convertPosition [c, d] = Some i \<and> 0 \<le> i \<and> i \<le> 63 \<and> convertPositionBack i = [c, d]))
   \<and> (0 \<le> i \<and> i \<le> 63 \<longrightarrow>
      (\<exists>c d. convertPositionBack i = [c, d] \<and> c \<in> set ''ABCDEFGH'' \<and> d \<in> set ''12345678''
         \<and> convertPosition [c, d] = Some i))"
proof (intro conjI impI)
  assume "c \<in> set ''ABCDEFGH'' \<and> d \<in> set ''12345678''"
  then have c: "c \<in> set ''ABCDEFGH''" and d: "d \<in> set ''12345678''" by simp_all
  note fr = file_range[OF c] and rr = rank_range[OF d]
  have cp: "convertPosition [c, d] = Some ((8 - (of_char d - 48)) * 8 + (of_char c - 65))"
    using rr by (intro convertPosition_digit) auto
  have "0 \<le> (8 - (of_char d - 48)) * 8 + (of_char c - 65 :: int)"
    and "(8 - (of_char d - 48)) * 8 + (of_char c - 65 :: int) \<le> 63"
    using fr rr by auto
  with cp convertPositionBack_convertPosition[OF c d]
  show "\<exists>i. convertPosition [c, d] = Some i \<and> 0 \<le> i \<and> i \<le> 63 \<and> convertPositionBack i = [c, d]"
    by auto
next
  assume "0 \<le> i \<and> i \<le> 63"
  then have a: "0 \<le> i" "i \<le> 63" by simp_all
  define r where "r = 8 - i div 8"
  define f where "f = i mod 8"
  have i: "i = (8 - r) * 8 + f" by (simp add: r_def f_def)
  have b: "0 \<le> f" "f \<le> 7" "1 \<le> r" "r \<le> 8" using a by (auto simp: r_def f_def)
  have fc: "char_of (65 + f) \<in> set ''ABCDEFGH''" using b by (intro file_char)
  have rc: "char_of (48 + r) \<in> set ''12345678''" using b by (intro rank_char)
  have cb: "convertPositionBack i = [char_of (65 + f), char_of (48 + r)]"
    unfolding i using b by (rule convertPositionBack_cell)
  from convertPosition_convertPositionBack[OF a] cb fc rc
  show "\<exists>c d. convertPositionBack i = [c, d] \<and> c \<in> set ''ABCDEFGH'' \<and> d \<in> set ''12345678''
         \<and> convertPosition [c, d] = Some i"
    by auto
qed

text \<open>The position A3 and the index 40 correspond to each other.\<close>

theorem convertPosition_bijection_witness:
  "CHR ''A'' \<in> set ''ABCDEFGH'' \<and> CHR ''3'' \<in> set ''12345678'' \<and> (0::int) \<le> 40 \<and> (40::int) \<le> 63
   \<and> convertPosition ''A3'' = Some 40 \<and> convertPositionBack 40 = ''A3''"
  using convertPosition_bijection [of "CHR ''A''" "CHR ''3''" 40]
  by (auto simp: convertPosition_def charCodeAt0_def parseInt1_def)

section \<open>The checks that open executeMove\<close>

text \<open>
  Claim C10. A call whose actor is no stored player throws the plain error
  'Player not found.', which has no kind in the failure taxonomy, whatever the game
  table holds: the game lookup, the status check and the authorization check are not
  reached, and the store is left as it was. Hence a call that reports GAME_NOT_FOUND
  was made by a stored player.
\<close>

theorem executeMove_unknown_player:
  "(players d playerId = None \<longrightarrow>
      executeMove D now gameId from to playerId d = (Inl (GenericError ''Player not found.''), d)
      \<and> failureKind (GenericError ''Player not found.'') = None)
   \<and> (fst (executeMove D now gameId from to playerId d) = Inl (MoveError GAME_NOT_FOUND) \<longrightarrow>
      players d playerId \<noteq> None)"
  by (cases "players d playerId") (simp_all add: executeMove_def)

text \<open>Player 9 is not stored and asks for the running game 7; player 1 is stored and
  asks for game 99, which is not.\<close>

theorem executeMove_unknown_player_witness:
  "players store0 9 = None
   \<and> executeMove (scripted [mv 40 33] [] PLAYING PLAYING None) 1000 7 ''A3'' ''B4'' 9 store0
       = (Inl (GenericError ''Player not found.''), store0)
   \<and> fst (executeMove (scripted [mv 40 33] [] PLAYING PLAYING None) 1000 99 ''A3'' ''B4'' 1 store0)
       = Inl (MoveError GAME_NOT_FOUND)
   \<and> players store0 1 \<noteq> None"
  using executeMove_unknown_player
          [of store0 9 "scripted [mv 40 33] [] PLAYING PLAYING None" 1000 7 "''A3''" "''B4''"]
        executeMove_unknown_player
          [of store0 1 "scripted [mv 40 33] [] PLAYING PLAYING None" 1000 99 "''A3''" "''B4''"]
  by (simp add: store0_def executeMove_def)

section \<open>The store after each stage\<close>

subsection \<open>Saves and lookups\<close>

lemma move_rows_saves [simp]:
  "move_rows (Player_save d k p) = move_rows d"
  "move_rows (Game_save d gid g) = move_rows d"
  "move_rows (Move_create d row) = move_rows d @ [row]"
  by (simp_all add: Player_save_def Game_save_def Move_create_def)

lemma players_saves [simp]:
  "players (Player_save d k p) = (players d)(k \<mapsto> p)"
  "players (Game_save d gid g) = players d"
  "players (Move_create d row) = players d"
  by (simp_all add: Player_save_def Game_save_def Move_create_def)

lemma games_saves [simp]:
  "games (Player_save d k p) = games d"
  "games (Game_save d gid g) = (games d)(gid \<mapsto> g)"
  "games (Move_create d row) = games d"
  by (simp_all add: Player_save_def Game_save_def Move_create_def)

lemma balance_saves [simp]:
  "balance (Player_save d k p) k' = (if k' = k then Some (tokens p) else balance d k')"
  "balance (Game_save d gid g) k' = balance d k'"
  "balance (Move_create d row) k' = balance d k'"
  by (simp_all add: balance_def)

lemma totalMoves_saves [simp]:
  "totalMoves (Player_save d k p) gid' = totalMoves d gid'"
  "totalMoves (Game_save d gid g) gid' = (if gid' = gid then Some (total_moves g) else totalMoves d gid')"
  "totalMoves (Move_create d row) gid' = totalMoves d gid'"
  by (simp_all add: totalMoves_def)

lemma Move_findOne_saves [simp]:
  "Move_findOne (Player_save d k p) gid u = Move_findOne d gid u"
  "Move_findOne (Game_save d gid' g) gid u = Move_findOne d gid u"
  by (simp_all add: Move_findOne_def)

lemma Move_findOne_create_other [simp]:
  "user_id row \<noteq> u \<Longrightarrow> Move_findOne (Move_create d row) gid u = Move_findOne d gid u"
  by (simp add: Move_findOne_def)

lemma aiMoveToPlay_saves [simp]:
  "aiMoveToPlay D e gid diff (Player_save d k p) = aiMoveToPlay D e gid diff d"
  "aiMoveToPlay D e gid diff (Game_save d gid' g) = aiMoveToPlay D e gid diff d"
  "user_id row \<noteq> None \<Longrightarrow> aiMoveToPlay D e gid diff (Move_create d row) = aiMoveToPlay D e gid diff d"
  by (simp_all add: aiMoveToPlay_def)

subsection \<open>What handleGameOver stores\<close>

lemma handleGameOver_rows [simp]:
  "move_rows (snd (handleGameOver D now gid e g d)) = move_rows d"
  by (simp add: handleGameOver_def Let_def split: prod.splits option.splits)

lemma handleGameOver_games [simp]:
  "games (snd (handleGameOver D now gid e g d)) =
     (games d)(gid \<mapsto> g\<lparr>status := COMPLETED, ended_at := Some now,
                          winner_id := fst (gameOverWinner (dr_status D e) g)\<rparr>)"
  by (simp add: handleGameOver_def Let_def split: prod.splits option.splits)

lemma handleGameOver_players:
  "players (snd (handleGameOver D now gid e g d)) =
     (case fst (gameOverWinner (dr_status D e) g) of
        None \<Rightarrow> players d
      | Some w \<Rightarrow> (case players d w of
                     None \<Rightarrow> players d
                   | Some winner \<Rightarrow> (players d)(w \<mapsto> winner\<lparr>score := js_plus D (score winner) (js_number D 1)\<rparr>)))"
  by (simp add: handleGameOver_def Let_def split: prod.splits option.splits)

lemma handleGameOver_fst [simp]:
  "fst (handleGameOver D now gid e g d) = (snd (gameOverWinner (dr_status D e) g), dr_board D e)"
  by (simp add: handleGameOver_def Let_def split: prod.splits option.splits)

lemma handleGameOver_balance [simp]:
  "balance (snd (handleGameOver D now gid e g d)) k = balance d k"
  by (simp add: balance_def handleGameOver_players split: option.splits)

lemma handleGameOver_totalMoves [simp]:
  "totalMoves (snd (handleGameOver D now gid e g d)) gid = Some (total_moves g)"
  by (simp add: totalMoves_def)

subsection \<open>What the timeout stores\<close>

lemma timedOut_rows [simp]: "move_rows (snd (timedOut D now gid pid g d)) = move_rows d"
  by (simp add: timedOut_def Let_def split: option.splits)

lemma timedOut_games [simp]:
  "games (snd (timedOut D now gid pid g d)) =
     (games d)(gid \<mapsto> g\<lparr>status := TIMED_OUT, ended_at := Some now,
        winner_id := (if opponent_id g = None then Some (- 1)
                      else if player_id g = pid then opponent_id g else Some (player_id g))\<rparr>)"
  by (simp add: timedOut_def Let_def split: option.splits)

lemma timedOut_players:
  "players (snd (timedOut D now gid pid g d)) =
     (case players d pid of None \<Rightarrow> players d
      | Some p \<Rightarrow> (players d)(pid \<mapsto> p\<lparr>score := js_minus D (score p) (js_number D (1 / 2))\<rparr>))"
  by (simp add: timedOut_def Let_def split: option.splits)

lemma timedOut_fst:
  "fst (timedOut D now gid pid g d) =
     Inr \<lparr>message = ''The game has ended due to a timeout after 1 minutes.'', r_game_id = gid,
          r_status = Some TIMED_OUT, r_board = None, moveDescription = None\<rparr>"
  by (simp add: timedOut_def Let_def show_int_digit TIMEOUT_MINUTES_def char_of_eq_iff)

lemma timedOut_balance [simp]:
  "balance (snd (timedOut D now gid pid g d)) k = balance d k"
  by (simp add: balance_def timedOut_players split: option.splits)

lemma timedOut_totalMoves [simp]:
  "totalMoves (snd (timedOut D now gid pid g d)) gid = Some (total_moves g)"
  by (simp add: totalMoves_def)

subsection \<open>What the AI turn stores\<close>

lemma aiTurn_None:
  "aiMoveToPlay D e gid (ai_difficulty g) d = None \<Longrightarrow>
   aiTurn D now gid f t pid pl g sb oi n e d = (None, d)"
  by (simp add: aiTurn_def)

lemma aiTurn_Some_rows:
  "aiMoveToPlay D e gid (ai_difficulty g) d = Some a \<Longrightarrow>
   move_rows (snd (aiTurn D now gid f t pid pl g sb oi n e d)) =
     move_rows d @ [\<lparr>move_number = n + 1, move_board = dr_board D (dr_move D e a),
                      from_position = convertPositionBack (origin a),
                      to_position = convertPositionBack (destination a),
                      piece_type = pieceType sb (origin a), move_game_id = gid,
                      user_id = None, createdAt = now\<rparr>]"
  by (simp add: aiTurn_def Let_def case_prod_beta)

lemma aiTurn_Some_fst:
  "aiMoveToPlay D e gid (ai_difficulty g) d = Some a \<Longrightarrow>
   \<exists>r. fst (aiTurn D now gid f t pid pl g sb oi n e d) = Some r"
  by (simp add: aiTurn_def Let_def case_prod_beta)

lemma aiTurn_Some_balance:
  "aiMoveToPlay D e gid (ai_difficulty g) d = Some a \<Longrightarrow>
   balance (snd (aiTurn D now gid f t pid pl g sb oi n e d)) pid =
     Some (js_minus D (tokens pl) (MOVE_COST D))"
  by (simp add: aiTurn_def Let_def case_prod_beta)

lemma aiTurn_Some_totalMoves:
  "aiMoveToPlay D e gid (ai_difficulty g) d = Some a \<Longrightarrow>
   totalMoves (snd (aiTurn D now gid f t pid pl g sb oi n e d)) gid =
     Some (total_moves g + 1)"
  by (simp add: aiTurn_def Let_def case_prod_beta)

subsection \<open>What the actor's turn stores\<close>

lemma playerTurn_over:
  assumes "isGameOver (dr_status D (dr_move D e m))"
  shows "\<exists>r row. fst (playerTurn D now gid f t pid pl g sb oi m e d) = Inr r
     \<and> move_rows (snd (playerTurn D now gid f t pid pl g sb oi m e d)) = move_rows d @ [row]
     \<and> move_number row = total_moves g + 1 \<and> move_game_id row = gid \<and> user_id row = Some pid
     \<and> totalMoves (snd (playerTurn D now gid f t pid pl g sb oi m e d)) gid = Some (total_moves g + 1)
     \<and> balance (snd (playerTurn D now gid f t pid pl g sb oi m e d)) pid = balance d pid"
  using assms by (simp add: playerTurn_def Let_def case_prod_beta)

lemma playerTurn_single:
  assumes "\<not> isGameOver (dr_status D (dr_move D e m))"
    and "gtype g \<noteq> PVE \<or> aiMoveToPlay D (dr_move D e m) gid (ai_difficulty g) d = None"
  shows "\<exists>r row. fst (playerTurn D now gid f t pid pl g sb oi m e d) = Inr r
     \<and> move_rows (snd (playerTurn D now gid f t pid pl g sb oi m e d)) = move_rows d @ [row]
     \<and> move_number row = total_moves g + 1 \<and> move_game_id row = gid \<and> user_id row = Some pid
     \<and> totalMoves (snd (playerTurn D now gid f t pid pl g sb oi m e d)) gid = Some (total_moves g + 1)
     \<and> balance (snd (playerTurn D now gid f t pid pl g sb oi m e d)) pid = balance d pid"
  using assms by (auto simp add: playerTurn_def Let_def case_prod_beta aiTurn_None)

lemma playerTurn_ai:
  assumes "\<not> isGameOver (dr_status D (dr_move D e m))"
    and "gtype g = PVE" and "aiMoveToPlay D (dr_move D e m) gid (ai_difficulty g) d = Some a"
  shows "\<exists>r row row'. fst (playerTurn D now gid f t pid pl g sb oi m e d) = Inr r
     \<and> move_rows (snd (playerTurn D now gid f t pid pl g sb oi m e d)) = move_rows d @ [row, row']
     \<and> move_number row = total_moves g + 1 \<and> move_game_id row = gid \<and> user_id row = Some pid
     \<and> move_number row' = total_moves g + 2 \<and> move_game_id row' = gid \<and> user_id row' = None
     \<and> totalMoves (snd (playerTurn D now gid f t pid pl g sb oi m e d)) gid = Some (total_moves g + 2)
     \<and> balance (snd (playerTurn D now gid f t pid pl g sb oi m e d)) pid = Some (js_minus D (tokens pl) (MOVE_COST D))"
proof -
  let ?g1 = "g\<lparr>board := BoardObject (BoardArray (map Cell (dr_board D (dr_move D e m)))),
                 total_moves := (if total_moves g = 0 then 0 else total_moves g) + 1\<rparr>"
  let ?row = "\<lparr>move_number = total_moves ?g1, move_board = dr_board D (dr_move D e m),
                from_position = f, to_position = t, piece_type = pieceType sb oi,
                move_game_id = gid, user_id = Some pid, createdAt = now\<rparr>"
  let ?d2 = "Move_create (Game_save d gid ?g1) ?row"
  let ?ai = "aiTurn D now gid f t pid pl ?g1 sb oi (total_moves ?g1) (dr_move D e m) ?d2"
  have ai: "aiMoveToPlay D (dr_move D e m) gid (ai_difficulty ?g1) ?d2 = Some a"
    using assms(3) by simp
  obtain r where r: "fst ?ai = Some r" using aiTurn_Some_fst[OF ai] by blast
  have pt: "playerTurn D now gid f t pid pl g sb oi m e d = (Inr r, snd ?ai)"
    using assms(1,2) r by (simp add: playerTurn_def Let_def case_prod_beta split: option.splits)
  show ?thesis
    unfolding pt using aiTurn_Some_rows[OF ai] aiTurn_Some_balance[OF ai] aiTurn_Some_totalMoves[OF ai]
    by simp
qed


lemma first_of_filter: "(case filter P xs of [] \<Rightarrow> None | y # _ \<Rightarrow> Some y) = find P xs"
  by (induction xs) auto

lemma aiMoveToPlay_substitute:
  assumes "Move_findOne d gid None = Some l" "chooseAIMove D e diff = Some a"
    "from_position l \<noteq> []" "to_position l \<noteq> []"
    "convertPosition (from_position l) = Some (origin a)"
    "convertPosition (to_position l) = Some (destination a)"
  shows "aiMoveToPlay D e gid diff d =
     find (\<lambda>x. origin x \<noteq> origin a \<or> destination x \<noteq> destination a) (dr_moves D e)"
  using assms
  by (simp add: aiMoveToPlay_def avoidRepetition_def repeatsLast_def Let_def first_of_filter)

lemma playerTurn_ai_rows:
  assumes "\<not> isGameOver (dr_status D (dr_move D e m))"
    and "gtype g = PVE" and "aiMoveToPlay D (dr_move D e m) gid (ai_difficulty g) d = Some a"
  shows "move_rows (snd (playerTurn D now gid f t pid pl g sb oi m e d)) =
     move_rows d @
       [\<lparr>move_number = total_moves g + 1, move_board = dr_board D (dr_move D e m),
         from_position = f, to_position = t, piece_type = pieceType sb oi,
         move_game_id = gid, user_id = Some pid, createdAt = now\<rparr>,
        \<lparr>move_number = total_moves g + 2, move_board = dr_board D (dr_move D (dr_move D e m) a),
         from_position = convertPositionBack (origin a),
         to_position = convertPositionBack (destination a),
         piece_type = pieceType sb (origin a), move_game_id = gid,
         user_id = None, createdAt = now\<rparr>]"
proof -
  let ?g1 = "g\<lparr>board := BoardObject (BoardArray (map Cell (dr_board D (dr_move D e m)))),
                 total_moves := (if total_moves g = 0 then 0 else total_moves g) + 1\<rparr>"
  let ?row = "\<lparr>move_number = total_moves ?g1, move_board = dr_board D (dr_move D e m),
                from_position = f, to_position = t, piece_type = pieceType sb oi,
                move_game_id = gid, user_id = Some pid, createdAt = now\<rparr>"
  let ?d2 = "Move_create (Game_save d gid ?g1) ?row"
  let ?ai = "aiTurn D now gid f t pid pl ?g1 sb oi (total_moves ?g1) (dr_move D e m) ?d2"
  have ai: "aiMoveToPlay D (dr_move D e m) gid (ai_difficulty ?g1) ?d2 = Some a"
    using assms(3) by simp
  obtain r where r: "fst ?ai = Some r" using aiTurn_Some_fst[OF ai] by blast
  have pt: "playerTurn D now gid f t pid pl g sb oi m e d = (Inr r, snd ?ai)"
    using assms(1,2) r by (simp add: playerTurn_def Let_def case_prod_beta split: option.splits)
  show ?thesis
    unfolding pt using aiTurn_Some_rows[OF ai] by simp
qed

subsection \<open>The paths through executeMove\<close>

lemma executeMove_cases [consumes 4, case_names unparsed noArray illegal timeout repeated played]:
  assumes "players d pid = Some p" "games d gid = Some g" "status g = ONGOING"
    "player_id g = pid \<or> opponent_id g = Some pid"
  obtains
    "parseBoard D (board g) = None"
    "executeMove D now gid f t pid d = (Inl (MoveError FAILED_PARSING), Player_save d pid (debited D p))"
  | "parseBoard D (board g) = Some NoBoardArray"
    "executeMove D now gid f t pid d = (Inl (MoveError NOT_VALID_ARRAY), Player_save d pid (debited D p))"
  | sb where "parseBoard D (board g) = Some (BoardArray sb)"
    "resolveMove D (dr_setup D (flat sb)) f t = None"
    "executeMove D now gid f t pid d = (Inl (MoveError NOT_VALID_MOVE), Player_save d pid (debited D p))"
  | sb m l where "parseBoard D (board g) = Some (BoardArray sb)"
    "resolveMove D (dr_setup D (flat sb)) f t = Some m"
    "Move_findOne d gid (Some pid) = Some l" "now - createdAt l > 60000"
    "executeMove D now gid f t pid d = timedOut D now gid pid g (Player_save d pid (debited D p))"
  | sb m l where "parseBoard D (board g) = Some (BoardArray sb)"
    "resolveMove D (dr_setup D (flat sb)) f t = Some m"
    "Move_findOne d gid (Some pid) = Some l" "now - createdAt l \<le> 60000"
    "from_position l = f" "to_position l = t"
    "executeMove D now gid f t pid d = (Inl (MoveError NOT_VALID_MOVE), Player_save d pid (debited D p))"
  | sb m where "parseBoard D (board g) = Some (BoardArray sb)"
    "resolveMove D (dr_setup D (flat sb)) f t = Some m"
    "\<forall>l. Move_findOne d gid (Some pid) = Some l \<longrightarrow>
        now - createdAt l \<le> 60000 \<and> (from_position l \<noteq> f \<or> to_position l \<noteq> t)"
    "executeMove D now gid f t pid d =
       playerTurn D now gid f t pid (debited D p) g sb (origin m) m (dr_setup D (flat sb))
         (Player_save d pid (debited D p))"
proof -
  have auth: "\<not> (player_id g \<noteq> pid \<and> opponent_id g \<noteq> Some pid)" using assms(4) by blast
  show thesis
  proof (cases "parseBoard D (board g)")
    case None
    with assms(1-3) auth that(1) show thesis by (auto simp add: executeMove_def Let_def)
  next
    case (Some j)
    show thesis
    proof (cases j)
      case NoBoardArray
      with Some assms(1-3) auth that(2) show thesis by (auto simp add: executeMove_def Let_def)
    next
      case (BoardArray sb)
      note pb = Some[unfolded BoardArray]
      show thesis
      proof (cases "resolveMove D (dr_setup D (flat sb)) f t")
        case None
        with pb assms(1-3) auth that(3) show thesis by (auto simp add: executeMove_def Let_def)
      next
        case (Some m)
        have ex: "executeMove D now gid f t pid d =
           afterValidation D now gid f t pid (debited D p) g sb (origin m) m (dr_setup D (flat sb))
             (Player_save d pid (debited D p))"
          using pb Some assms(1-3) auth by (auto simp add: executeMove_def Let_def)
        show thesis
        proof (cases "Move_findOne d gid (Some pid)")
          case None
          then show thesis using that(6)[OF pb Some] ex by (simp add: afterValidation_def)
        next
          case (Some l)
          note lm = this
          show thesis
          proof (cases "now - createdAt l > 60000")
            case True
            then show thesis using that(4)[OF pb \<open>resolveMove D (dr_setup D (flat sb)) f t = Some m\<close> lm] ex lm
              by (simp add: afterValidation_def TIMEOUT_MINUTES_def)
          next
            case False
            show thesis
            proof (cases "from_position l = f \<and> to_position l = t")
              case True
              then show thesis
                using that(5)[OF pb \<open>resolveMove D (dr_setup D (flat sb)) f t = Some m\<close> lm] ex lm False
                by (simp add: afterValidation_def TIMEOUT_MINUTES_def)
            next
              case nd: False
              have "executeMove D now gid f t pid d =
                  playerTurn D now gid f t pid (debited D p) g sb (origin m) m (dr_setup D (flat sb))
                    (Player_save d pid (debited D p))"
                using ex lm False nd by (auto simp add: afterValidation_def TIMEOUT_MINUTES_def)
              moreover have "\<forall>l. Move_findOne d gid (Some pid) = Some l \<longrightarrow>
                  now - createdAt l \<le> 60000 \<and> (from_position l \<noteq> f \<or> to_position l \<noteq> t)"
                using lm False nd by auto
              ultimately show thesis
                using that(6)[OF pb \<open>resolveMove D (dr_setup D (flat sb)) f t = Some m\<close>] by blast
            qed
          qed
        qed
      qed
    qed
  qed
qed

lemma executeMove_rejected [simp]:
  "players d pid = None \<Longrightarrow> executeMove D now gid f t pid d = (Inl (GenericError ''Player not found.''), d)"
  "players d pid = Some p \<Longrightarrow> games d gid = None \<Longrightarrow> executeMove D now gid f t pid d = (Inl (MoveError GAME_NOT_FOUND), d)"
  "players d pid = Some p \<Longrightarrow> games d gid = Some g \<Longrightarrow> status g \<noteq> ONGOING \<Longrightarrow>
     executeMove D now gid f t pid d = (Inl (GameError GAME_NOT_IN_PROGRESS), d)"
  "players d pid = Some p \<Longrightarrow> games d gid = Some g \<Longrightarrow> status g = ONGOING \<Longrightarrow>
     player_id g \<noteq> pid \<Longrightarrow> opponent_id g \<noteq> Some pid \<Longrightarrow>
     executeMove D now gid f t pid d = (Inl (AuthError UNAUTHORIZED), d)"
  by (simp_all add: executeMove_def)

subsection \<open>The numbers of the scripted engine\<close>

lemma scripted_js [simp]:
  "js_minus (scripted ms0 ms1 st1 st2 ai) = Minus"
  "js_plus (scripted ms0 ms1 st1 st2 ai) = Plus"
  "js_number (scripted ms0 ms1 st1 st2 ai) = Num"
  by (simp_all add: scripted_def)

subsection \<open>Balances, points and records after the actor's turn\<close>

lemma playerTurn_balance:
  "balance d pid = Some (tokens pl) \<Longrightarrow>
   balance (snd (playerTurn D now gid f t pid pl g sb oi m e d)) pid =
     Some (if aiReplies D (dr_move D e m) g gid d then js_minus D (tokens pl) (MOVE_COST D)
           else tokens pl)"
proof (cases "isGameOver (dr_status D (dr_move D e m))")
  case True
  assume "balance d pid = Some (tokens pl)"
  with True playerTurn_over[OF True, where gid = gid and now = now and f = f and t = t and pid = pid and pl = pl and g = g and sb = sb and oi = oi and d = d] show ?thesis
    by (auto simp: aiReplies_def)
next
  case False
  assume b: "balance d pid = Some (tokens pl)"
  show ?thesis
  proof (cases "gtype g = PVE \<and> aiMoveToPlay D (dr_move D e m) gid (ai_difficulty g) d \<noteq> None")
    case True
    then obtain a where a: "aiMoveToPlay D (dr_move D e m) gid (ai_difficulty g) d = Some a" by auto
    from playerTurn_ai[OF False _ a, where now = now and f = f and t = t and pid = pid and pl = pl and sb = sb and oi = oi] True False a show ?thesis
      by (auto simp: aiReplies_def)
  next
    case nr: False
    then have "gtype g \<noteq> PVE \<or> aiMoveToPlay D (dr_move D e m) gid (ai_difficulty g) d = None" by auto
    from playerTurn_single[OF False this, where now = now and f = f and t = t and pid = pid and pl = pl and sb = sb and oi = oi] b nr False show ?thesis
      by (auto simp: aiReplies_def)
  qed
qed

lemma playerTurn_isr: "\<exists>r. fst (playerTurn D now gid f t pid pl g sb oi m e d) = Inr r"
proof (cases "isGameOver (dr_status D (dr_move D e m))")
  case True
  from playerTurn_over[OF True, where gid = gid and now = now and f = f and t = t and pid = pid and pl = pl and g = g and sb = sb and oi = oi and d = d] show ?thesis by blast
next
  case False
  show ?thesis
  proof (cases "gtype g = PVE \<and> aiMoveToPlay D (dr_move D e m) gid (ai_difficulty g) d \<noteq> None")
    case True
    then obtain a where a: "aiMoveToPlay D (dr_move D e m) gid (ai_difficulty g) d = Some a" by auto
    from playerTurn_ai[OF False _ a, where now = now and f = f and t = t and pid = pid and pl = pl and sb = sb and oi = oi] True show ?thesis by blast
  next
    case nr: False
    then have "gtype g \<noteq> PVE \<or> aiMoveToPlay D (dr_move D e m) gid (ai_difficulty g) d = None" by auto
    from playerTurn_single[OF False this, where now = now and f = f and t = t and pid = pid and pl = pl and sb = sb and oi = oi] show ?thesis by blast
  qed
qed

lemma playerTurn_rows:
  "\<exists>row rest. move_rows (snd (playerTurn D now gid f t pid pl g sb oi m e d)) = move_rows d @ row # rest
     \<and> user_id row = Some pid \<and> move_number row = total_moves g + 1 \<and> move_game_id row = gid
     \<and> (if aiReplies D (dr_move D e m) g gid d
         then \<exists>row'. rest = [row'] \<and> user_id row' = None \<and> move_number row' = total_moves g + 2
                \<and> move_game_id row' = gid
         else rest = [])
     \<and> totalMoves (snd (playerTurn D now gid f t pid pl g sb oi m e d)) gid
           = Some (total_moves g + 1 + int (length rest))"
proof (cases "isGameOver (dr_status D (dr_move D e m))")
  case True
  from playerTurn_over[OF True, where gid = gid and now = now and f = f and t = t and pid = pid
      and pl = pl and g = g and sb = sb and oi = oi and d = d] True
  show ?thesis by (auto simp: aiReplies_def)
next
  case False
  show ?thesis
  proof (cases "gtype g = PVE \<and> aiMoveToPlay D (dr_move D e m) gid (ai_difficulty g) d \<noteq> None")
    case True
    then obtain a where a: "aiMoveToPlay D (dr_move D e m) gid (ai_difficulty g) d = Some a" by auto
    have r: "aiReplies D (dr_move D e m) g gid d" using True False by (simp add: aiReplies_def)
    from playerTurn_ai[OF False _ a, where now = now and f = f and t = t and pid = pid and pl = pl
        and sb = sb and oi = oi] True
    obtain row row' where
      "move_rows (snd (playerTurn D now gid f t pid pl g sb oi m e d)) = move_rows d @ [row, row']"
      "move_number row = total_moves g + 1" "move_game_id row = gid" "user_id row = Some pid"
      "move_number row' = total_moves g + 2" "move_game_id row' = gid" "user_id row' = None"
      "totalMoves (snd (playerTurn D now gid f t pid pl g sb oi m e d)) gid = Some (total_moves g + 2)"
      by blast
    then show ?thesis using r by (intro exI[of _ row] exI[of _ "[row']"]) simp
  next
    case nr: False
    then have *: "gtype g \<noteq> PVE \<or> aiMoveToPlay D (dr_move D e m) gid (ai_difficulty g) d = None" by auto
    have r: "\<not> aiReplies D (dr_move D e m) g gid d" using nr by (simp add: aiReplies_def)
    from playerTurn_single[OF False *, where now = now and f = f and t = t and pid = pid and pl = pl
        and sb = sb and oi = oi]
    show ?thesis using r by auto
  qed
qed

subsection \<open>The winner of a finished game\<close>

lemma gameOverWinner_fst:
  "fst (gameOverWinner st g) =
     (case st of LIGHT_WON \<Rightarrow> Some (player_id g)
      | DARK_WON \<Rightarrow> (case gtype g of PVE \<Rightarrow> Some (- 1) | PVP \<Rightarrow> opponent_id g)
      | DRAW \<Rightarrow> None | PLAYING \<Rightarrow> None)"
  by (cases st; cases "gtype g") (simp_all add: gameOverWinner_def)

lemma gameOverWinner_update:
  "gameOverWinner st (g\<lparr>board := b, total_moves := n\<rparr>) = gameOverWinner st g"
  by (simp add: gameOverWinner_def)

lemma gameOverWinner_snd:
  "snd (gameOverWinner st g) =
     (case st of LIGHT_WON \<Rightarrow> ''You have won!''
      | DARK_WON \<Rightarrow> (case gtype g of PVE \<Rightarrow> ''The AI has won!'' | PVP \<Rightarrow> ''Your opponent has won!'')
      | DRAW \<Rightarrow> ''The game ended in a draw!'' | PLAYING \<Rightarrow> ''The game ended in a draw!'')"
  by (cases st; cases "gtype g") (simp_all add: gameOverWinner_def)


lemma points_saves [simp]:
  "points (Player_save d k p) k' = (if k' = k then Some (score p) else points d k')"
  "points (Game_save d gid g) k' = points d k'"
  "points (Move_create d row) k' = points d k'"
  by (simp_all add: points_def)

lemma handleGameOver_points:
  "points (snd (handleGameOver D now gid e g d)) k =
     (if fst (gameOverWinner (dr_status D e) g) = Some k
      then map_option (\<lambda>s. js_plus D s (js_number D 1)) (points d k) else points d k)"
  by (auto simp add: points_def handleGameOver_players split: option.splits)

subsection \<open>A round in which the AI plays\<close>

lemma playerTurn_ai_eq:
  assumes "\<not> isGameOver (dr_status D (dr_move D e m))"
    and "gtype g = PVE" and "aiMoveToPlay D (dr_move D e m) gid (ai_difficulty g) d = Some a"
  shows "playerTurn D now gid f t pid pl g sb oi m e d =
     (let e1 = dr_move D e m;
          e2 = dr_move D e1 a;
          g1 = g\<lparr>board := BoardObject (BoardArray (map Cell (dr_board D e1))),
                 total_moves := total_moves g + 1\<rparr>;
          g2 = g\<lparr>board := BoardObject (BoardArray (map Cell (dr_board D e2))),
                 total_moves := total_moves g + 2\<rparr>;
          d2 = Move_create (Game_save d gid g1)
                 \<lparr>move_number = total_moves g + 1, move_board = dr_board D e1,
                  from_position = f, to_position = t, piece_type = pieceType sb oi,
                  move_game_id = gid, user_id = Some pid, createdAt = now\<rparr>;
          d3 = Move_create (Player_save (Game_save d2 gid g2) pid (debited D pl))
                 \<lparr>move_number = total_moves g + 2, move_board = dr_board D e2,
                  from_position = convertPositionBack (origin a),
                  to_position = convertPositionBack (destination a),
                  piece_type = pieceType sb (origin a), move_game_id = gid,
                  user_id = None, createdAt = now\<rparr>
      in if isGameOver (dr_status D e2) then
           (Inr (gameOverResponse gid (fst (handleGameOver D now gid e2 g2 d3))),
            snd (handleGameOver D now gid e2 g2 d3))
         else
           (Inr \<lparr>message = ''Move successfully executed'', r_game_id = gid,
                 r_status = None, r_board = None,
                 moveDescription = Some
                   (''You moved a '' @ pieceType sb oi @ '' from '' @ f @ '' to '' @ t @ ''. ''
                    @ ''AI moved a '' @ pieceType sb (origin a) @ '' from ''
                    @ convertPositionBack (origin a) @ '' to ''
                    @ convertPositionBack (destination a) @ ''.'')\<rparr>, d3))"
  using assms by (simp add: playerTurn_def aiTurn_def Let_def case_prod_beta add.commute)

lemma executeMove_ai_round:
  assumes "players d pid = Some p" "games d gid = Some g" "status g = ONGOING"
    "player_id g = pid \<or> opponent_id g = Some pid"
    "parseBoard D (board g) = Some (BoardArray sb)"
    "resolveMove D (dr_setup D (flat sb)) f t = Some m"
    "\<forall>l. Move_findOne d gid (Some pid) = Some l \<longrightarrow>
        now - createdAt l \<le> 60000 \<and> (from_position l \<noteq> f \<or> to_position l \<noteq> t)"
    "gtype g = PVE"
    "\<not> isGameOver (dr_status D (dr_move D (dr_setup D (flat sb)) m))"
    "aiMoveToPlay D (dr_move D (dr_setup D (flat sb)) m) gid (ai_difficulty g) d = Some a"
  defines "e1 \<equiv> dr_move D (dr_setup D (flat sb)) m"
  defines "e2 \<equiv> dr_move D (dr_move D (dr_setup D (flat sb)) m) a"
  defines "g2 \<equiv> g\<lparr>board := BoardObject (BoardArray (map Cell
                      (dr_board D (dr_move D (dr_move D (dr_setup D (flat sb)) m) a)))),
                   total_moves := total_moves g + 2\<rparr>"
  shows "move_rows (snd (executeMove D now gid f t pid d)) =
            move_rows d @
              [\<lparr>move_number = total_moves g + 1, move_board = dr_board D e1,
                from_position = f, to_position = t,
                piece_type = pieceType sb (origin m), move_game_id = gid,
                user_id = Some pid, createdAt = now\<rparr>,
               \<lparr>move_number = total_moves g + 2, move_board = dr_board D e2,
                from_position = convertPositionBack (origin a),
                to_position = convertPositionBack (destination a),
                piece_type = pieceType sb (origin a), move_game_id = gid,
                user_id = None, createdAt = now\<rparr>]"
    and "games (snd (executeMove D now gid f t pid d)) =
           (games d)(gid \<mapsto>
              (if isGameOver (dr_status D e2)
               then g2\<lparr>status := COMPLETED, ended_at := Some now,
                       winner_id := fst (gameOverWinner (dr_status D e2) g)\<rparr>
               else g2))"
    and "balance (snd (executeMove D now gid f t pid d)) pid =
           Some (js_minus D (js_minus D (tokens p) (MOVE_COST D)) (MOVE_COST D))"
    and "points (snd (executeMove D now gid f t pid d)) k =
           (if isGameOver (dr_status D e2) \<and> fst (gameOverWinner (dr_status D e2) g) = Some k
            then map_option (\<lambda>s. js_plus D s (js_number D 1)) (points d k) else points d k)"
    and "fst (executeMove D now gid f t pid d) =
           Inr (if isGameOver (dr_status D e2)
                then gameOverResponse gid (snd (gameOverWinner (dr_status D e2) g), dr_board D e2)
                else \<lparr>message = ''Move successfully executed'', r_game_id = gid,
                      r_status = None, r_board = None,
                      moveDescription = Some
                        (''You moved a '' @ pieceType sb (origin m) @ '' from '' @ f @ '' to '' @ t
                         @ ''. '' @ ''AI moved a '' @ pieceType sb (origin a) @ '' from ''
                         @ convertPositionBack (origin a) @ '' to ''
                         @ convertPositionBack (destination a) @ ''.'')\<rparr>)"
proof -
  let ?d1 = "Player_save d pid (debited D p)"
  have ex: "executeMove D now gid f t pid d =
      playerTurn D now gid f t pid (debited D p) g sb (origin m) m (dr_setup D (flat sb)) ?d1"
    using assms(1-4)
  proof (cases rule: executeMove_cases[where D = D and now = now and f = f and t = t])
    case (played sb' m')
    then show ?thesis using assms(5,6) by simp
  qed (use assms(5,6,7) in auto)
  have play: "aiMoveToPlay D (dr_move D (dr_setup D (flat sb)) m) gid (ai_difficulty g) ?d1 = Some a"
    using assms(10) by simp
  have pd: "points d pid = Some (score p)"
    using assms(1) by (simp add: points_def)
  note eq = playerTurn_ai_eq[OF assms(9) assms(8) play, where now = now and f = f and t = t
      and pid = pid and pl = "debited D p" and sb = sb and oi = "origin m"]
  show "move_rows (snd (executeMove D now gid f t pid d)) =
            move_rows d @
              [\<lparr>move_number = total_moves g + 1, move_board = dr_board D e1,
                from_position = f, to_position = t,
                piece_type = pieceType sb (origin m), move_game_id = gid,
                user_id = Some pid, createdAt = now\<rparr>,
               \<lparr>move_number = total_moves g + 2, move_board = dr_board D e2,
                from_position = convertPositionBack (origin a),
                to_position = convertPositionBack (destination a),
                piece_type = pieceType sb (origin a), move_game_id = gid,
                user_id = None, createdAt = now\<rparr>]"
    unfolding ex eq by (simp add: Let_def e1_def e2_def)
  show "games (snd (executeMove D now gid f t pid d)) =
           (games d)(gid \<mapsto>
              (if isGameOver (dr_status D e2)
               then g2\<lparr>status := COMPLETED, ended_at := Some now,
                       winner_id := fst (gameOverWinner (dr_status D e2) g)\<rparr>
               else g2))"
    unfolding ex eq by (simp add: Let_def e2_def g2_def gameOverWinner_update)
  show "balance (snd (executeMove D now gid f t pid d)) pid =
           Some (js_minus D (js_minus D (tokens p) (MOVE_COST D)) (MOVE_COST D))"
    unfolding ex eq by (simp add: Let_def)
  show "points (snd (executeMove D now gid f t pid d)) k =
           (if isGameOver (dr_status D e2) \<and> fst (gameOverWinner (dr_status D e2) g) = Some k
            then map_option (\<lambda>s. js_plus D s (js_number D 1)) (points d k) else points d k)"
    unfolding ex eq
    by (simp add: Let_def e2_def handleGameOver_points gameOverWinner_update pd)
  show "fst (executeMove D now gid f t pid d) =
           Inr (if isGameOver (dr_status D e2)
                then gameOverResponse gid (snd (gameOverWinner (dr_status D e2) g), dr_board D e2)
                else \<lparr>message = ''Move successfully executed'', r_game_id = gid,
                      r_status = None, r_board = None,
                      moveDescription = Some
                        (''You moved a '' @ pieceType sb (origin m) @ '' from '' @ f @ '' to '' @ t
                         @ ''. '' @ ''AI moved a '' @ pieceType sb (origin a) @ '' from ''
                         @ convertPositionBack (origin a) @ '' to ''
                         @ convertPositionBack (destination a) @ ''.'')\<rparr>)"
    unfolding ex eq by (simp add: Let_def e2_def gameOverWinner_update)
qed

subsection \<open>Move counter and record numbers\<close>







lemma executeMove_round_length:
  assumes "players d pid = Some p" "games d gid = Some g" "status g = ONGOING"
    "player_id g = pid \<or> opponent_id g = Some pid"
    "parseBoard D (board g) = Some (BoardArray sb)"
    "resolveMove D (dr_setup D (flat sb)) f t = Some m"
    "\<forall>l. Move_findOne d gid (Some pid) = Some l \<longrightarrow>
        now - createdAt l \<le> 60000 \<and> (from_position l \<noteq> f \<or> to_position l \<noteq> t)"
  shows "length (move_rows (snd (executeMove D now gid f t pid d))) =
     length (move_rows d) +
       (if aiReplies D (dr_move D (dr_setup D (flat sb)) m) g gid d then 2 else 1)"
  using assms(1-4)
proof (cases rule: executeMove_cases[where D = D and now = now and f = f and t = t])
  case (played sb' m')
  have eq: "sb' = sb" "m' = m" using played(1,2) assms(5,6) by simp_all
  have ar: "aiReplies D (dr_move D (dr_setup D (flat sb)) m) g gid (Player_save d pid (debited D p))
      = aiReplies D (dr_move D (dr_setup D (flat sb)) m) g gid d"
    by (simp add: aiReplies_def)
  show ?thesis
    unfolding played(4) eq
    using playerTurn_rows[where D = D and now = now and gid = gid and f = f and t = t
        and pid = pid and pl = "debited D p" and g = g and sb = sb and oi = "origin m" and m = m
        and e = "dr_setup D (flat sb)" and d = "Player_save d pid (debited D p)"]
    unfolding ar by (auto split: if_splits)
qed (use assms in auto)

subsection \<open>When the AI has a move to play\<close>


section \<open>Timeout\<close>

text \<open>
  Claim C1, as amended. The timeout is examined after the board has been parsed and the
  submitted move has been resolved against the legal moves. For a call by a stored
  participant of a running game whose stored board parses and whose move is legal: when
  more than one minute has passed since the actor's last recorded move of this game, the
  call returns the timeout result at once, the game is stored as TIMED_OUT with the end
  time and with the opposing participant as winner (the AI sentinel -1 when the game has
  no opponent), the actor loses half a point, and the move is not applied: no record is
  added and board and move counter stay as they were. The move cost has been debited
  before: the stored balance is the double \<^verbatim>\<open>tokens - 0.02\<close>, the stored score the
  double \<^verbatim>\<open>score - 0.5\<close>.
\<close>

theorem executeMove_timeout:
  assumes "players d playerId = Some p" "games d gameId = Some g" "status g = ONGOING"
    "player_id g = playerId \<or> opponent_id g = Some playerId"
    "parseBoard D (board g) = Some (BoardArray sb)"
    "resolveMove D (dr_setup D (flat sb)) from to = Some m"
    "Move_findOne d gameId (Some playerId) = Some l"
    "60000 < now - createdAt l"
  shows "fst (executeMove D now gameId from to playerId d) =
           Inr \<lparr>message = ''The game has ended due to a timeout after 1 minutes.'',
                r_game_id = gameId, r_status = Some TIMED_OUT, r_board = None,
                moveDescription = None\<rparr>
       \<and> games (snd (executeMove D now gameId from to playerId d)) =
           (games d)(gameId \<mapsto> g\<lparr>status := TIMED_OUT, ended_at := Some now,
              winner_id := (if opponent_id g = None then Some (- 1)
                            else if player_id g = playerId then opponent_id g
                            else Some (player_id g))\<rparr>)
       \<and> players (snd (executeMove D now gameId from to playerId d)) =
           (players d)(playerId \<mapsto>
              p\<lparr>tokens := js_minus D (tokens p) (MOVE_COST D),
                score := js_minus D (score p) (js_number D (1 / 2))\<rparr>)
       \<and> move_rows (snd (executeMove D now gameId from to playerId d)) = move_rows d"
  using assms(1-4)
proof (cases rule: executeMove_cases[where D = D and now = now and f = "from" and t = "to"])
  case (timeout sb' m' l')
  then show ?thesis by (simp add: timedOut_fst timedOut_players)
qed (use assms in auto)

text \<open>Player 1 submits the legal move C3 to D4 in game 7 two minutes after their last
  move.\<close>

theorem executeMove_timeout_witness:
  "fst (executeMove (scripted [mv 42 35] [] PLAYING PLAYING None) 120000 7 ''C3'' ''D4'' 1 store1) =
     Inr \<lparr>message = ''The game has ended due to a timeout after 1 minutes.'',
          r_game_id = 7, r_status = Some TIMED_OUT, r_board = None, moveDescription = None\<rparr>
   \<and> games (snd (executeMove (scripted [mv 42 35] [] PLAYING PLAYING None) 120000 7 ''C3'' ''D4'' 1 store1)) 7 =
       Some (pvpGame\<lparr>total_moves := 2, status := TIMED_OUT, ended_at := Some 120000, winner_id := Some 2\<rparr>)
   \<and> players (snd (executeMove (scripted [mv 42 35] [] PLAYING PLAYING None) 120000 7 ''C3'' ''D4'' 1 store1)) 1 =
       Some \<lparr>tokens = Minus (Num 5) (Num (1 / 50)), score = Minus (Num 0) (Num (1 / 2))\<rparr>
   \<and> move_rows (snd (executeMove (scripted [mv 42 35] [] PLAYING PLAYING None) 120000 7 ''C3'' ''D4'' 1 store1)) =
       move_rows store1"
proof -
  let ?D = "scripted [mv 42 35] [] PLAYING PLAYING None"
  have 1: "players store1 1 = Some \<lparr>tokens = Num 5, score = Num 0\<rparr>" by (simp add: store1_def)
  have 2: "games store1 7 = Some (pvpGame\<lparr>total_moves := 2\<rparr>)" by (simp add: store1_def)
  have 3: "status (pvpGame\<lparr>total_moves := 2\<rparr>) = ONGOING" by (simp add: pvpGame_def)
  have 4: "player_id (pvpGame\<lparr>total_moves := 2\<rparr>) = 1 \<or> opponent_id (pvpGame\<lparr>total_moves := 2\<rparr>) = Some 1"
    by (simp add: pvpGame_def)
  have 5: "parseBoard ?D (board (pvpGame\<lparr>total_moves := 2\<rparr>)) = Some (BoardArray [])"
    by (simp add: pvpGame_def parseBoard_def)
  have 6: "resolveMove ?D (dr_setup ?D (flat [])) ''C3'' ''D4'' = Some (mv 42 35)"
    by (simp add: resolveMove_def scripted_def mv_def convertPosition_def charCodeAt0_def parseInt1_def)
  have 7: "Move_findOne store1 7 (Some 1) = Some (moveRow 7 1 (Some 1) ''A3'' ''B4'' 0)"
    by (simp add: Move_findOne_def store1_def moveRow_def)
  have 8: "60000 < (120000::int) - createdAt (moveRow 7 1 (Some 1) ''A3'' ''B4'' 0)"
    by (simp add: moveRow_def)
  show ?thesis
    using executeMove_timeout [OF 1 2 3 4 5 6 7 8]
    by (simp add: pvpGame_def MOVE_COST_def)
qed

text \<open>The claim as stated fails: two minutes after their last move player 1 submits C3
  to C5, which is not legal. The call throws NOT_VALID_MOVE, the game stays ONGOING
  without a winner and no penalty is applied.\<close>

theorem executeMove_timeout_counterexample:
  "Move_findOne store1 7 (Some 1) = Some (moveRow 7 1 (Some 1) ''A3'' ''B4'' 0)
   \<and> 60000 < (120000::int) - createdAt (moveRow 7 1 (Some 1) ''A3'' ''B4'' 0)
   \<and> resolveMove (scripted [mv 42 35] [] PLAYING PLAYING None) 0 ''C3'' ''C5'' = None
   \<and> fst (executeMove (scripted [mv 42 35] [] PLAYING PLAYING None) 120000 7 ''C3'' ''C5'' 1 store1)
       = Inl (MoveError NOT_VALID_MOVE)
   \<and> games (snd (executeMove (scripted [mv 42 35] [] PLAYING PLAYING None) 120000 7 ''C3'' ''C5'' 1 store1)) 7
       = Some (pvpGame\<lparr>total_moves := 2\<rparr>)
   \<and> status (pvpGame\<lparr>total_moves := 2\<rparr>) = ONGOING \<and> winner_id (pvpGame\<lparr>total_moves := 2\<rparr>) = None
   \<and> points (snd (executeMove (scripted [mv 42 35] [] PLAYING PLAYING None) 120000 7 ''C3'' ''C5'' 1 store1)) 1
       = Some (Num 0)"
  by (simp add: executeMove_def store1_def pvpGame_def parseBoard_def resolveMove_def scripted_def
        mv_def convertPosition_def charCodeAt0_def parseInt1_def Move_findOne_def moveRow_def
        flat_def points_def Player_save_def)

section \<open>The move cost\<close>

text \<open>
  Claim C2, as amended. Every call that passes the player, game, status and authorization
  checks debits the actor the move cost, whatever the balance is: no balance is tested
  and no call fails for lack of tokens. The stored balance is \<^verbatim>\<open>tokens - 0.02\<close> when the
  call adds no record or one record, and \<^verbatim>\<open>(tokens - 0.02) - 0.02\<close> when it adds two,
  which happens exactly when the actor's move is committed and the AI replies to it. The
  first debit is stored before the board is parsed and the move is validated, so a call
  that is rejected afterwards (FAILED_PARSING, NOT_VALID_ARRAY, NOT_VALID_MOVE) leaves
  games and records unchanged but keeps the debit.
\<close>

theorem executeMove_debit_unconditional:
  assumes "players d playerId = Some p" "games d gameId = Some g" "status g = ONGOING"
    "player_id g = playerId \<or> opponent_id g = Some playerId"
  shows "balance (snd (executeMove D now gameId from to playerId d)) playerId =
           Some (if length (move_rows (snd (executeMove D now gameId from to playerId d)))
                      = length (move_rows d) + 2
                 then js_minus D (js_minus D (tokens p) (MOVE_COST D)) (MOVE_COST D)
                 else js_minus D (tokens p) (MOVE_COST D))
       \<and> ((length (move_rows (snd (executeMove D now gameId from to playerId d)))
              = length (move_rows d) + 2) =
          (\<exists>sb m. parseBoard D (board g) = Some (BoardArray sb)
             \<and> resolveMove D (dr_setup D (flat sb)) from to = Some m
             \<and> (\<forall>l. Move_findOne d gameId (Some playerId) = Some l \<longrightarrow>
                    now - createdAt l \<le> 60000 \<and> (from_position l \<noteq> from \<or> to_position l \<noteq> to))
             \<and> aiReplies D (dr_move D (dr_setup D (flat sb)) m) g gameId d))
       \<and> (\<forall>e. fst (executeMove D now gameId from to playerId d) = Inl e \<longrightarrow>
             e \<in> {MoveError FAILED_PARSING, MoveError NOT_VALID_ARRAY, MoveError NOT_VALID_MOVE}
             \<and> balance (snd (executeMove D now gameId from to playerId d)) playerId
                 = Some (js_minus D (tokens p) (MOVE_COST D))
             \<and> games (snd (executeMove D now gameId from to playerId d)) = games d
             \<and> move_rows (snd (executeMove D now gameId from to playerId d)) = move_rows d)"
  using assms
proof (cases rule: executeMove_cases[where D = D and now = now and f = "from" and t = "to"])
  case (timeout sb m l)
  then show ?thesis by (auto simp add: timedOut_fst)
next
  case (played sb m)
  let ?d1 = "Player_save d playerId (debited D p)"
  let ?e1 = "dr_move D (dr_setup D (flat sb)) m"
  have b: "balance ?d1 playerId = Some (tokens (debited D p))" by simp
  have ar: "aiReplies D ?e1 g gameId ?d1 = aiReplies D ?e1 g gameId d"
    by (simp add: aiReplies_def)
  from playerTurn_isr[where D = D and now = now and gid = gameId and f = "from" and t = "to"
        and pid = playerId and pl = "debited D p" and g = g and sb = sb and oi = "origin m" and m = m
        and e = "dr_setup D (flat sb)" and d = ?d1]
  obtain r where r: "fst (executeMove D now gameId from to playerId d) = Inr r"
    unfolding played(4) by blast
  have len: "length (move_rows (snd (executeMove D now gameId from to playerId d))) =
      length (move_rows d) + (if aiReplies D ?e1 g gameId d then 2 else 1)"
    using executeMove_round_length[OF assms played(1,2,3)] .
  have bal: "balance (snd (executeMove D now gameId from to playerId d)) playerId =
      Some (if aiReplies D ?e1 g gameId d
            then js_minus D (js_minus D (tokens p) (MOVE_COST D)) (MOVE_COST D)
            else js_minus D (tokens p) (MOVE_COST D))"
    using playerTurn_balance[OF b, where D = D and now = now and gid = gameId and f = "from"
        and t = "to" and g = g and sb = sb and oi = "origin m" and m = m and e = "dr_setup D (flat sb)"]
    unfolding played(4) ar by simp
  have iff: "(\<exists>sb' m'. parseBoard D (board g) = Some (BoardArray sb')
             \<and> resolveMove D (dr_setup D (flat sb')) from to = Some m'
             \<and> (\<forall>l. Move_findOne d gameId (Some playerId) = Some l \<longrightarrow>
                    now - createdAt l \<le> 60000 \<and> (from_position l \<noteq> from \<or> to_position l \<noteq> to))
             \<and> aiReplies D (dr_move D (dr_setup D (flat sb')) m') g gameId d)
        = aiReplies D ?e1 g gameId d"
    using played(1,2,3) by auto
  show ?thesis
    unfolding iff using len bal r by simp
qed auto

text \<open>Player 1 opens the PvE game 8 with A3 to B4 and the AI answers B6 to A5: two
  records, two debits.\<close>

theorem executeMove_debit_unconditional_witness:
  "length (move_rows (snd (executeMove (scripted [mv 40 33] [mv 17 24] PLAYING PLAYING (Some (mv 17 24)))
       1000 8 ''A3'' ''B4'' 1 store0))) = length (move_rows store0) + 2
   \<and> aiReplies (scripted [mv 40 33] [mv 17 24] PLAYING PLAYING (Some (mv 17 24))) 1 pveGame 8 store0
   \<and> balance (snd (executeMove (scripted [mv 40 33] [mv 17 24] PLAYING PLAYING (Some (mv 17 24)))
       1000 8 ''A3'' ''B4'' 1 store0)) 1
     = Some (Minus (Minus (Num 5) (Num (1 / 50))) (Num (1 / 50)))"
proof -
  let ?D = "scripted [mv 40 33] [mv 17 24] PLAYING PLAYING (Some (mv 17 24))"
  have 1: "players store0 1 = Some \<lparr>tokens = Num 5, score = Num 0\<rparr>" by (simp add: store0_def)
  have 2: "games store0 8 = Some pveGame" by (simp add: store0_def)
  have 3: "status pveGame = ONGOING" by (simp add: pveGame_def)
  have 4: "player_id pveGame = 1 \<or> opponent_id pveGame = Some 1" by (simp add: pveGame_def)
  have 5: "parseBoard ?D (board pveGame) = Some (BoardArray [])"
    by (simp add: pveGame_def parseBoard_def)
  have 6: "resolveMove ?D (dr_setup ?D (flat [])) ''A3'' ''B4'' = Some (mv 40 33)"
    by (simp add: resolveMove_def scripted_def mv_def convertPosition_def charCodeAt0_def parseInt1_def)
  have 7: "\<forall>l. Move_findOne store0 8 (Some 1) = Some l \<longrightarrow>
        1000 - createdAt l \<le> 60000 \<and> (from_position l \<noteq> ''A3'' \<or> to_position l \<noteq> ''B4'')"
    by (simp add: Move_findOne_def store0_def)
  have e: "dr_move ?D (dr_setup ?D (flat [])) (mv 40 33) = 1" by (simp add: scripted_def)
  have 8: "aiReplies ?D 1 pveGame 8 store0"
    by (simp add: aiReplies_def isGameOver_def scripted_def pveGame_def aiMoveToPlay_def
        avoidRepetition_def repeatsLast_def chooseAIMove_def Move_findOne_def store0_def)
  have 9: "\<exists>sb m. parseBoard ?D (board pveGame) = Some (BoardArray sb)
             \<and> resolveMove ?D (dr_setup ?D (flat sb)) ''A3'' ''B4'' = Some m
             \<and> (\<forall>l. Move_findOne store0 8 (Some 1) = Some l \<longrightarrow>
                    1000 - createdAt l \<le> 60000 \<and> (from_position l \<noteq> ''A3'' \<or> to_position l \<noteq> ''B4''))
             \<and> aiReplies ?D (dr_move ?D (dr_setup ?D (flat sb)) m) pveGame 8 store0"
    using 5 6 7 8 e by (intro exI[of _ "[]"] exI[of _ "mv 40 33"]) simp
  show ?thesis
    using executeMove_debit_unconditional [OF 1 2 3 4, of ?D 1000 "''A3''" "''B4''"] 8 9
    by (simp add: MOVE_COST_def)
qed

text \<open>The claim as stated fails: player 1 holds no token and submits the legal move A3
  to B4 in game 7. The call succeeds, the move is committed and the balance goes below
  zero.\<close>

theorem executeMove_debit_counterexample:
  "balance spentStore 1 = Some (Num 0)
   \<and> resolveMove (scripted [mv 40 33] [] PLAYING PLAYING None) 0 ''A3'' ''B4'' = Some (mv 40 33)
   \<and> fst (executeMove (scripted [mv 40 33] [] PLAYING PLAYING None) 1000 7 ''A3'' ''B4'' 1 spentStore)
       = Inr \<lparr>message = ''Move successfully executed'', r_game_id = 7, r_status = None,
              r_board = None, moveDescription = Some ''You moved a single from A3 to B4.''\<rparr>
   \<and> balance (snd (executeMove (scripted [mv 40 33] [] PLAYING PLAYING None) 1000 7 ''A3'' ''B4'' 1 spentStore)) 1
       = Some (Minus (Num 0) (Num (1 / 50)))
   \<and> totalMoves (snd (executeMove (scripted [mv 40 33] [] PLAYING PLAYING None) 1000 7 ''A3'' ''B4'' 1 spentStore)) 7
       = Some 1
   \<and> length (move_rows (snd (executeMove (scripted [mv 40 33] [] PLAYING PLAYING None) 1000 7 ''A3'' ''B4'' 1 spentStore)))
       = 1"
  by (simp add: executeMove_def spentStore_def store0_def pvpGame_def parseBoard_def resolveMove_def
        scripted_def mv_def convertPosition_def charCodeAt0_def parseInt1_def Move_findOne_def
        flat_def balance_def totalMoves_def afterValidation_def playerTurn_def isGameOver_def
        pieceType_def MOVE_COST_def)

section \<open>The repetition guard\<close>

text \<open>
  Claim C5, as amended. For a call by a stored participant of a running game whose stored
  board parses to an array and whose last recorded move of this game is at most one
  minute old: when the submitted pair of positions equals that last move, the call is
  rejected with NOT_VALID_MOVE, a RuleViolation, whether or not the pair is a legal move
  on the current board (an illegal pair is rejected by the validation, a legal one by the
  guard). Games and records stay as they were.
\<close>

theorem executeMove_repeated_move:
  assumes "players d playerId = Some p" "games d gameId = Some g" "status g = ONGOING"
    "player_id g = playerId \<or> opponent_id g = Some playerId"
    "parseBoard D (board g) = Some (BoardArray sb)"
    "Move_findOne d gameId (Some playerId) = Some l"
    "from_position l = from" "to_position l = to"
    "now - createdAt l \<le> 60000"
  shows "fst (executeMove D now gameId from to playerId d) = Inl (MoveError NOT_VALID_MOVE)
       \<and> failureKind (MoveError NOT_VALID_MOVE) = Some RuleViolation
       \<and> games (snd (executeMove D now gameId from to playerId d)) = games d
       \<and> move_rows (snd (executeMove D now gameId from to playerId d)) = move_rows d"
  using assms(1-4)
proof (cases rule: executeMove_cases[where D = D and now = now and f = "from" and t = "to"])
  case (timeout sb' m' l')
  with assms show ?thesis by simp
next
  case (played sb' m')
  with assms show ?thesis by simp
qed (use assms in simp_all)

text \<open>Player 1 resubmits A3 to B4 in game 7 thirty seconds after playing it, once with
  an engine for which the pair is legal and once with an engine for which it is not.\<close>

theorem executeMove_repeated_move_witness:
  "resolveMove (scripted [mv 40 33] [] PLAYING PLAYING None) 0 ''A3'' ''B4'' = Some (mv 40 33)
   \<and> fst (executeMove (scripted [mv 40 33] [] PLAYING PLAYING None) 30000 7 ''A3'' ''B4'' 1 store1)
       = Inl (MoveError NOT_VALID_MOVE)
   \<and> resolveMove (scripted [mv 42 35] [] PLAYING PLAYING None) 0 ''A3'' ''B4'' = None
   \<and> fst (executeMove (scripted [mv 42 35] [] PLAYING PLAYING None) 30000 7 ''A3'' ''B4'' 1 store1)
       = Inl (MoveError NOT_VALID_MOVE)
   \<and> move_rows (snd (executeMove (scripted [mv 40 33] [] PLAYING PLAYING None) 30000 7 ''A3'' ''B4'' 1 store1))
       = move_rows store1"
proof -
  let ?D = "scripted [mv 40 33] [] PLAYING PLAYING None"
  let ?E = "scripted [mv 42 35] [] PLAYING PLAYING None"
  have 1: "players store1 1 = Some \<lparr>tokens = Num 5, score = Num 0\<rparr>" by (simp add: store1_def)
  have 2: "games store1 7 = Some (pvpGame\<lparr>total_moves := 2\<rparr>)" by (simp add: store1_def)
  have 3: "status (pvpGame\<lparr>total_moves := 2\<rparr>) = ONGOING" by (simp add: pvpGame_def)
  have 4: "player_id (pvpGame\<lparr>total_moves := 2\<rparr>) = 1 \<or> opponent_id (pvpGame\<lparr>total_moves := 2\<rparr>) = Some 1"
    by (simp add: pvpGame_def)
  have 5: "parseBoard ?D (board (pvpGame\<lparr>total_moves := 2\<rparr>)) = Some (BoardArray [])"
    "parseBoard ?E (board (pvpGame\<lparr>total_moves := 2\<rparr>)) = Some (BoardArray [])"
    by (simp_all add: pvpGame_def parseBoard_def)
  have 6: "Move_findOne store1 7 (Some 1) = Some (moveRow 7 1 (Some 1) ''A3'' ''B4'' 0)"
    by (simp add: Move_findOne_def store1_def moveRow_def)
  have 7: "from_position (moveRow 7 1 (Some 1) ''A3'' ''B4'' 0) = ''A3''"
    "to_position (moveRow 7 1 (Some 1) ''A3'' ''B4'' 0) = ''B4''"
    "(30000::int) - createdAt (moveRow 7 1 (Some 1) ''A3'' ''B4'' 0) \<le> 60000"
    by (simp_all add: moveRow_def)
  have 8: "resolveMove ?D 0 ''A3'' ''B4'' = Some (mv 40 33)" "resolveMove ?E 0 ''A3'' ''B4'' = None"
    by (simp_all add: resolveMove_def scripted_def mv_def convertPosition_def charCodeAt0_def parseInt1_def)
  show ?thesis
    using executeMove_repeated_move [OF 1 2 3 4 5(1) 6 7]
          executeMove_repeated_move [OF 1 2 3 4 5(2) 6 7] 8
    by simp
qed

text \<open>The claim as stated fails. In game 9 the stored board does not parse: the
  resubmitted pair is rejected with FAILED_PARSING, a ParseError, because the board is
  parsed before the guard. In game 7 the resubmission comes two minutes after the move:
  the call is not rejected, it returns the timeout result.\<close>

theorem executeMove_repeated_move_counterexample:
  "Move_findOne store1 9 (Some 1) = Some (moveRow 9 1 (Some 1) ''A3'' ''B4'' 0)
   \<and> fst (executeMove (scripted [mv 40 33] [] PLAYING PLAYING None) 30000 9 ''A3'' ''B4'' 1 store1)
       = Inl (MoveError FAILED_PARSING)
   \<and> failureKind (MoveError FAILED_PARSING) = Some ParseError
   \<and> Move_findOne store1 7 (Some 1) = Some (moveRow 7 1 (Some 1) ''A3'' ''B4'' 0)
   \<and> fst (executeMove (scripted [mv 40 33] [] PLAYING PLAYING None) 120000 7 ''A3'' ''B4'' 1 store1)
       = Inr \<lparr>message = ''The game has ended due to a timeout after 1 minutes.'',
              r_game_id = 7, r_status = Some TIMED_OUT, r_board = None, moveDescription = None\<rparr>"
proof -
  let ?D = "scripted [mv 40 33] [] PLAYING PLAYING None"
  have a: "Move_findOne store1 9 (Some 1) = Some (moveRow 9 1 (Some 1) ''A3'' ''B4'' 0)"
      "Move_findOne store1 7 (Some 1) = Some (moveRow 7 1 (Some 1) ''A3'' ''B4'' 0)"
    by (simp_all add: Move_findOne_def store1_def moveRow_def)
  have b: "fst (executeMove ?D 30000 9 ''A3'' ''B4'' 1 store1) = Inl (MoveError FAILED_PARSING)"
    by (simp add: executeMove_def store1_def brokenGame_def parseBoard_def scripted_def)
  have c: "executeMove ?D 120000 7 ''A3'' ''B4'' 1 store1 =
             timedOut ?D 120000 7 1 (pvpGame\<lparr>total_moves := 2\<rparr>)
               (Player_save store1 1 (debited ?D \<lparr>tokens = Num 5, score = Num 0\<rparr>))"
    by (simp add: executeMove_def store1_def pvpGame_def parseBoard_def resolveMove_def scripted_def
        mv_def convertPosition_def charCodeAt0_def parseInt1_def Move_findOne_def moveRow_def
        flat_def afterValidation_def Player_save_def TIMEOUT_MINUTES_def)
  show ?thesis using a b by (simp add: c timedOut_fst)
qed

section \<open>The AI move selector\<close>

lemma withSpecComputers_simps [simp]:
  "dr_moves (withSpecComputers D draw) = dr_moves D"
  "dr_random (withSpecComputers D draw) = randomComputer D draw"
  "dr_alphaBeta (withSpecComputers D draw) = alphaBetaComputer D"
  by (simp_all add: withSpecComputers_def)

lemma randomComputer_legal:
  "randomComputer D draw e = Some m \<Longrightarrow> m \<in> set (dr_moves D e)"
  by (auto simp add: randomComputer_def Let_def split: if_splits)

lemma randomComputer_None: "(randomComputer D draw e = None) = (dr_moves D e = [])"
  by (simp add: randomComputer_def Let_def)

lemma rootLoop_mem: "rootLoop child bestMove best alpha beta ms \<in> insert bestMove (set ms)"
proof (induction ms arbitrary: bestMove best alpha)
  case Nil
  show ?case by simp
next
  case (Cons x xs)
  show ?case
  proof (cases "best < child alpha beta x")
    case True
    with Cons[of x "child alpha beta x" "max alpha (child alpha beta x)"] show ?thesis
      by (auto simp add: Let_def)
  next
    case False
    with Cons[of bestMove best alpha] show ?thesis by (auto simp add: Let_def)
  qed
qed

lemma alphaBetaComputer_legal:
  "alphaBetaComputer D maxDepth e = Some m \<Longrightarrow> m \<in> set (dr_moves D e)"
proof (cases "dr_moves D e")
  case Nil
  assume "alphaBetaComputer D maxDepth e = Some m"
  with Nil show ?thesis by (simp add: alphaBetaComputer_def)
next
  case (Cons x xs)
  assume "alphaBetaComputer D maxDepth e = Some m"
  with Cons have "m = rootLoop (\<lambda>a b y. alphaBeta D (dr_player D e) (maxDepth - 1) a b False (dr_move D e y))
                  x (- INFINITY - 1) (- INFINITY) INFINITY (x # xs)"
    by (simp add: alphaBetaComputer_def)
  then have "m \<in> insert x (set (x # xs))" using rootLoop_mem by metis
  with Cons show ?thesis by simp
qed

lemma alphaBetaComputer_None: "(alphaBetaComputer D maxDepth e = None) = (dr_moves D e = [])"
  by (simp add: alphaBetaComputer_def split: list.splits)

text \<open>
  Claim C4. The selector of the service hands the choice to the two computers of the
  library; with the computers as the spec describes them (a uniform draw among the legal
  moves, and an alpha-beta search of depth 5 over the legal moves), for every engine
  state, whatever the draw: a move the selector returns is one of the legal moves of the
  position, at every difficulty, and at the difficulties of a game against the AI (EASY
  and HARD, the only ones \<^verbatim>\<open>createGame\<close> stores for a PvE game, for which alone the
  service calls its private selector) it returns null exactly when there is no legal
  move.
\<close>

theorem chooseAIMove_legal:
  "(\<forall>m. chooseAIMove (withSpecComputers D draw) e difficulty = Some m \<longrightarrow> m \<in> set (dr_moves D e))
   \<and> (difficulty \<in> {EASY, HARD} \<longrightarrow>
        (chooseAIMove (withSpecComputers D draw) e difficulty = None) = (dr_moves D e = []))"
proof (cases difficulty)
  case EASY
  then show ?thesis
    by (auto simp add: chooseAIMove_def randomComputer_None dest: randomComputer_legal)
next
  case HARD
  then show ?thesis
    by (auto simp add: chooseAIMove_def alphaBetaComputer_None dest: alphaBetaComputer_legal)
next
  case ABSENT
  then show ?thesis by (simp add: chooseAIMove_def)
qed

text \<open>After one move of the scripted engine the legal moves are B6 to A5 and D6 to E5.
  With the draw 3 the Easy selector takes the second; the Hard selector, for which all
  positions of this engine weigh the same, takes the first.\<close>

theorem chooseAIMove_legal_witness:
  "dr_moves (scripted [mv 42 35] [mv 17 24, mv 19 28] PLAYING PLAYING None) 1 = [mv 17 24, mv 19 28]
   \<and> chooseAIMove (withSpecComputers (scripted [mv 42 35] [mv 17 24, mv 19 28] PLAYING PLAYING None) 3)
        1 EASY = Some (mv 19 28)
   \<and> chooseAIMove (withSpecComputers (scripted [mv 42 35] [mv 17 24, mv 19 28] PLAYING PLAYING None) 3)
        1 HARD = Some (mv 17 24)
   \<and> mv 19 28 \<in> set (dr_moves (scripted [mv 42 35] [mv 17 24, mv 19 28] PLAYING PLAYING None) 1)
   \<and> mv 17 24 \<in> set (dr_moves (scripted [mv 42 35] [mv 17 24, mv 19 28] PLAYING PLAYING None) 1)"
proof -
  let ?D = "scripted [mv 42 35] [mv 17 24, mv 19 28] PLAYING PLAYING None"
  have ms: "dr_moves ?D (Suc 0) = [mv 17 24, mv 19 28]" by (simp add: scripted_def)
  have dr: "(3::nat) mod Suc (Suc 0) = Suc 0" by presburger
  have easy: "chooseAIMove (withSpecComputers ?D 3) 1 EASY = Some (mv 19 28)"
    by (simp add: chooseAIMove_def randomComputer_def ms Let_def dr)
  have hard: "chooseAIMove (withSpecComputers ?D 3) 1 HARD = Some (mv 17 24)"
    by code_simp
  show ?thesis
    using chooseAIMove_legal [of ?D 3 1 EASY] chooseAIMove_legal [of ?D 3 1 HARD] ms easy hard
    by simp
qed

section \<open>A round with an AI reply\<close>

text \<open>
  Claim C8. A call by a stored participant of a running game in which the AI replies,
  that is, a call that adds two records, is a call in a PvE game; its records are the
  actor's and then the AI's (no user), and the actor's balance is lowered by the move
  cost twice, once for each half-move: the stored balance is the double
  \<^verbatim>\<open>(tokens - 0.02) - 0.02\<close>.
\<close>

theorem executeMove_ai_debit:
  assumes "players d playerId = Some p" "games d gameId = Some g" "status g = ONGOING"
    "player_id g = playerId \<or> opponent_id g = Some playerId"
    "length (move_rows (snd (executeMove D now gameId from to playerId d))) = length (move_rows d) + 2"
  shows "balance (snd (executeMove D now gameId from to playerId d)) playerId
           = Some (js_minus D (js_minus D (tokens p) (MOVE_COST D)) (MOVE_COST D))
       \<and> gtype g = PVE
       \<and> (\<exists>row row'. move_rows (snd (executeMove D now gameId from to playerId d))
                        = move_rows d @ [row, row']
              \<and> user_id row = Some playerId \<and> user_id row' = None)"
  using assms(1-4)
proof (cases rule: executeMove_cases[where D = D and now = now and f = "from" and t = "to"])
  case (played sb m)
  let ?d1 = "Player_save d playerId (debited D p)"
  let ?PT = "playerTurn D now gameId from to playerId (debited D p) g sb (origin m) m
               (dr_setup D (flat sb)) ?d1"
  obtain row rest where rows: "move_rows (snd ?PT) = move_rows ?d1 @ row # rest"
      "user_id row = Some playerId"
      "if aiReplies D (dr_move D (dr_setup D (flat sb)) m) g gameId ?d1
       then \<exists>row'. rest = [row'] \<and> user_id row' = None \<and> move_number row' = total_moves g + 2
              \<and> move_game_id row' = gameId
       else rest = []"
    using playerTurn_rows[where D = D and now = now and gid = gameId and f = "from" and t = "to"
        and pid = playerId and pl = "debited D p" and g = g and sb = sb and oi = "origin m" and m = m
        and e = "dr_setup D (flat sb)" and d = ?d1]
    by blast
  have len: "length (move_rows (snd ?PT)) = length (move_rows d) + 2"
    using assms(5) unfolding played(4) .
  have r: "aiReplies D (dr_move D (dr_setup D (flat sb)) m) g gameId ?d1"
    using rows(1,3) len by (auto split: if_splits)
  then obtain row' where row': "rest = [row']" "user_id row' = None" using rows(3) by auto
  have b: "balance ?d1 playerId = Some (tokens (debited D p))" by simp
  have "balance (snd ?PT) playerId
      = Some (js_minus D (js_minus D (tokens p) (MOVE_COST D)) (MOVE_COST D))"
    using playerTurn_balance[OF b, where D = D and now = now and gid = gameId and f = "from"
        and t = "to" and g = g and sb = sb and oi = "origin m" and m = m and e = "dr_setup D (flat sb)"] r
    by simp
  moreover have "gtype g = PVE" using r by (simp add: aiReplies_def)
  ultimately show ?thesis
    unfolding played(4) using rows(1,2) row' by simp
qed (use assms(5) in simp_all)

text \<open>Player 1 opens the PvE game 8 with A3 to B4 and the AI answers B6 to A5.\<close>

theorem executeMove_ai_debit_witness:
  "length (move_rows (snd (executeMove (scripted [mv 40 33] [mv 17 24] PLAYING PLAYING (Some (mv 17 24)))
       1000 8 ''A3'' ''B4'' 1 store0))) = length (move_rows store0) + 2
   \<and> balance store0 1 = Some (Num 5)
   \<and> balance (snd (executeMove (scripted [mv 40 33] [mv 17 24] PLAYING PLAYING (Some (mv 17 24)))
       1000 8 ''A3'' ''B4'' 1 store0)) 1 = Some (Minus (Minus (Num 5) (Num (1 / 50))) (Num (1 / 50)))
   \<and> map user_id (move_rows (snd (executeMove (scripted [mv 40 33] [mv 17 24] PLAYING PLAYING
       (Some (mv 17 24))) 1000 8 ''A3'' ''B4'' 1 store0))) = [Some 1, None]"
proof -
  let ?D = "scripted [mv 40 33] [mv 17 24] PLAYING PLAYING (Some (mv 17 24))"
  have 1: "players store0 1 = Some \<lparr>tokens = Num 5, score = Num 0\<rparr>" by (simp add: store0_def)
  have 2: "games store0 8 = Some pveGame" by (simp add: store0_def)
  have 3: "status pveGame = ONGOING" by (simp add: pveGame_def)
  have 4: "player_id pveGame = 1 \<or> opponent_id pveGame = Some 1" by (simp add: pveGame_def)
  have rows: "map user_id (move_rows (snd (executeMove ?D 1000 8 ''A3'' ''B4'' 1 store0))) = [Some 1, None]"
    by (simp add: executeMove_def store0_def pveGame_def parseBoard_def resolveMove_def scripted_def
        mv_def convertPosition_def charCodeAt0_def parseInt1_def Move_findOne_def
        flat_def afterValidation_def playerTurn_def isGameOver_def aiTurn_def aiMoveToPlay_def
        avoidRepetition_def repeatsLast_def chooseAIMove_def Let_def)
  have 5: "length (move_rows (snd (executeMove ?D 1000 8 ''A3'' ''B4'' 1 store0))) = length (move_rows store0) + 2"
    using arg_cong[OF rows, of length] by (simp add: store0_def)
  have 6: "balance store0 1 = Some (Num 5)" by (simp add: balance_def store0_def)
  show ?thesis
    using executeMove_ai_debit [OF 1 2 3 4 5] rows 5 6
    by (simp add: MOVE_COST_def)
qed

section \<open>The anti-repetition guard of the AI\<close>

text \<open>
  Claim C7. In a PvE call whose actor's move is committed and does not end the game: when
  the move chosen by the selector equals the last recorded move of the AI in this game
  (compared as converted positions) and some legal move differs from it, the first legal
  move that differs is played in its place, and no second draw is made. That substitute
  is a legal move and differs from the chosen one. It is played in full: the engine
  applies it, the game row takes the board after it and a move counter raised by two (and
  is closed when the substitute ends the game), the call adds the actor's record and then
  the AI's record with the substitute, the actor is debited a second time, and the answer
  describes the substitute as the AI's move.
\<close>

theorem executeMove_ai_substitution:
  assumes "players d playerId = Some p" "games d gameId = Some g" "status g = ONGOING"
    "player_id g = playerId \<or> opponent_id g = Some playerId"
    "parseBoard D (board g) = Some (BoardArray sb)"
    "resolveMove D (dr_setup D (flat sb)) from to = Some m"
    "\<forall>l. Move_findOne d gameId (Some playerId) = Some l \<longrightarrow>
        now - createdAt l \<le> 60000 \<and> (from_position l \<noteq> from \<or> to_position l \<noteq> to)"
    "gtype g = PVE"
    "\<not> isGameOver (dr_status D (dr_move D (dr_setup D (flat sb)) m))"
    "Move_findOne d gameId None = Some la"
    "chooseAIMove D (dr_move D (dr_setup D (flat sb)) m) (ai_difficulty g) = Some a"
    "from_position la \<noteq> []" "to_position la \<noteq> []"
    "convertPosition (from_position la) = Some (origin a)"
    "convertPosition (to_position la) = Some (destination a)"
    "find (\<lambda>x. origin x \<noteq> origin a \<or> destination x \<noteq> destination a)
       (dr_moves D (dr_move D (dr_setup D (flat sb)) m)) = Some b"
  defines "e1 \<equiv> dr_move D (dr_setup D (flat sb)) m"
  defines "e2 \<equiv> dr_move D (dr_move D (dr_setup D (flat sb)) m) b"
  defines "g2 \<equiv> g\<lparr>board := BoardObject (BoardArray (map Cell
                      (dr_board D (dr_move D (dr_move D (dr_setup D (flat sb)) m) b)))),
                   total_moves := total_moves g + 2\<rparr>"
  shows "b \<in> set (dr_moves D e1)
       \<and> (origin b \<noteq> origin a \<or> destination b \<noteq> destination a)
       \<and> move_rows (snd (executeMove D now gameId from to playerId d)) =
            move_rows d @
              [\<lparr>move_number = total_moves g + 1, move_board = dr_board D e1,
                from_position = from, to_position = to,
                piece_type = pieceType sb (origin m), move_game_id = gameId,
                user_id = Some playerId, createdAt = now\<rparr>,
               \<lparr>move_number = total_moves g + 2, move_board = dr_board D e2,
                from_position = convertPositionBack (origin b),
                to_position = convertPositionBack (destination b),
                piece_type = pieceType sb (origin b), move_game_id = gameId,
                user_id = None, createdAt = now\<rparr>]
       \<and> games (snd (executeMove D now gameId from to playerId d)) =
           (games d)(gameId \<mapsto>
              (if isGameOver (dr_status D e2)
               then g2\<lparr>status := COMPLETED, ended_at := Some now,
                       winner_id := fst (gameOverWinner (dr_status D e2) g)\<rparr>
               else g2))
       \<and> balance (snd (executeMove D now gameId from to playerId d)) playerId =
           Some (js_minus D (js_minus D (tokens p) (MOVE_COST D)) (MOVE_COST D))
       \<and> fst (executeMove D now gameId from to playerId d) =
           Inr (if isGameOver (dr_status D e2)
                then gameOverResponse gameId (snd (gameOverWinner (dr_status D e2) g), dr_board D e2)
                else \<lparr>message = ''Move successfully executed'', r_game_id = gameId,
                      r_status = None, r_board = None,
                      moveDescription = Some
                        (''You moved a '' @ pieceType sb (origin m) @ '' from '' @ from @ '' to ''
                         @ to @ ''. '' @ ''AI moved a '' @ pieceType sb (origin b) @ '' from ''
                         @ convertPositionBack (origin b) @ '' to ''
                         @ convertPositionBack (destination b) @ ''.'')\<rparr>)"
proof -
  have play: "aiMoveToPlay D (dr_move D (dr_setup D (flat sb)) m) gameId (ai_difficulty g) d = Some b"
    using aiMoveToPlay_substitute[OF assms(10,11,12,13,14,15)] assms(16) by simp
  have b: "b \<in> set (dr_moves D e1) \<and> (origin b \<noteq> origin a \<or> destination b \<noteq> destination a)"
    using assms(16) unfolding e1_def find_Some_iff by (metis nth_mem)
  note round = executeMove_ai_round[OF assms(1-9) play]
  show ?thesis
    using b round(1,2,3,5) unfolding e1_def e2_def g2_def by simp
qed

text \<open>In game 8 the AI last played B6 to A5. Player 1 moves C3 to D4, the selector
  chooses B6 to A5 again, and the other legal move D6 to E5 is played.\<close>

theorem executeMove_ai_substitution_witness:
  "chooseAIMove (scripted [mv 42 35] [mv 17 24, mv 19 28] PLAYING PLAYING (Some (mv 17 24))) 1 HARD
     = Some (mv 17 24)
   \<and> Move_findOne store1 8 None = Some (moveRow 8 2 None ''B6'' ''A5'' 1000)
   \<and> convertPosition ''B6'' = Some 17 \<and> convertPosition ''A5'' = Some 24
   \<and> map (\<lambda>r. (move_number r, user_id r, from_position r, to_position r))
        (drop 5 (move_rows (snd (executeMove
           (scripted [mv 42 35] [mv 17 24, mv 19 28] PLAYING PLAYING (Some (mv 17 24)))
           30000 8 ''C3'' ''D4'' 1 store1))))
       = [(3, Some 1, ''C3'', ''D4''), (4, None, ''D6'', ''E5'')]
   \<and> games (snd (executeMove
           (scripted [mv 42 35] [mv 17 24, mv 19 28] PLAYING PLAYING (Some (mv 17 24)))
           30000 8 ''C3'' ''D4'' 1 store1)) 8 = Some (pveGame\<lparr>total_moves := 4\<rparr>)
   \<and> balance (snd (executeMove
           (scripted [mv 42 35] [mv 17 24, mv 19 28] PLAYING PLAYING (Some (mv 17 24)))
           30000 8 ''C3'' ''D4'' 1 store1)) 1
       = Some (Minus (Minus (Num 5) (Num (1 / 50))) (Num (1 / 50)))
   \<and> fst (executeMove
           (scripted [mv 42 35] [mv 17 24, mv 19 28] PLAYING PLAYING (Some (mv 17 24)))
           30000 8 ''C3'' ''D4'' 1 store1)
       = Inr \<lparr>message = ''Move successfully executed'', r_game_id = 8, r_status = None,
              r_board = None,
              moveDescription = Some
                ''You moved a single from C3 to D4. AI moved a single from D6 to E5.''\<rparr>"
proof -
  let ?D = "scripted [mv 42 35] [mv 17 24, mv 19 28] PLAYING PLAYING (Some (mv 17 24))"
  let ?g = "pveGame\<lparr>total_moves := 2\<rparr>"
  have 1: "players store1 1 = Some \<lparr>tokens = Num 5, score = Num 0\<rparr>" by (simp add: store1_def)
  have 2: "games store1 8 = Some ?g" by (simp add: store1_def)
  have 3: "status ?g = ONGOING" by (simp add: pveGame_def)
  have 4: "player_id ?g = 1 \<or> opponent_id ?g = Some 1" by (simp add: pveGame_def)
  have 5: "parseBoard ?D (board ?g) = Some (BoardArray [])"
    by (simp add: pveGame_def parseBoard_def)
  have 6: "resolveMove ?D (dr_setup ?D (flat [])) ''C3'' ''D4'' = Some (mv 42 35)"
    by (simp add: resolveMove_def scripted_def mv_def convertPosition_def charCodeAt0_def parseInt1_def)
  have 7: "\<forall>l. Move_findOne store1 8 (Some 1) = Some l \<longrightarrow>
        30000 - createdAt l \<le> 60000 \<and> (from_position l \<noteq> ''C3'' \<or> to_position l \<noteq> ''D4'')"
    by (simp add: Move_findOne_def store1_def moveRow_def)
  have 8: "gtype ?g = PVE" by (simp add: pveGame_def)
  have 9: "\<not> isGameOver (dr_status ?D (dr_move ?D (dr_setup ?D (flat [])) (mv 42 35)))"
    by (simp add: isGameOver_def scripted_def)
  have 10: "Move_findOne store1 8 None = Some (moveRow 8 2 None ''B6'' ''A5'' 1000)"
    by (simp add: Move_findOne_def store1_def moveRow_def)
  have 11: "chooseAIMove ?D (dr_move ?D (dr_setup ?D (flat [])) (mv 42 35)) (ai_difficulty ?g)
      = Some (mv 17 24)"
    by (simp add: chooseAIMove_def scripted_def pveGame_def)
  have 12: "from_position (moveRow 8 2 None ''B6'' ''A5'' 1000) \<noteq> []"
    "to_position (moveRow 8 2 None ''B6'' ''A5'' 1000) \<noteq> []"
    by (simp_all add: moveRow_def)
  have 13: "convertPosition (from_position (moveRow 8 2 None ''B6'' ''A5'' 1000)) = Some (origin (mv 17 24))"
    "convertPosition (to_position (moveRow 8 2 None ''B6'' ''A5'' 1000)) = Some (destination (mv 17 24))"
    by (simp_all add: moveRow_def mv_def convertPosition_def charCodeAt0_def parseInt1_def)
  have 14: "find (\<lambda>x. origin x \<noteq> origin (mv 17 24) \<or> destination x \<noteq> destination (mv 17 24))
       (dr_moves ?D (dr_move ?D (dr_setup ?D (flat [])) (mv 42 35))) = Some (mv 19 28)"
    by (simp add: scripted_def mv_def)
  have 15: "convertPositionBack 19 = ''D6''" "convertPositionBack 28 = ''E5''"
    using convertPositionBack_cell[of 3 6] convertPositionBack_cell[of 4 5]
    by (simp_all add: char_of_eq_iff)
  have 16: "chooseAIMove ?D 1 HARD = Some (mv 17 24)"
    by (simp add: chooseAIMove_def scripted_def)
  have 17: "convertPosition ''B6'' = Some 17" "convertPosition ''A5'' = Some 24"
    by (simp_all add: convertPosition_def charCodeAt0_def parseInt1_def)
  have 18: "length (move_rows store1) = 5" by (simp add: store1_def)
  have 19: "\<not> isGameOver (dr_status ?D
       (dr_move ?D (dr_move ?D (dr_setup ?D (flat [])) (mv 42 35)) (mv 19 28)))"
    by (simp add: isGameOver_def scripted_def)
  have 20: "dr_board ?D (dr_move ?D (dr_move ?D (dr_setup ?D (flat [])) (mv 42 35)) (mv 19 28)) = []"
    by (simp add: scripted_def)
  have 21: "\<And>i. pieceType [] i = ''single''"
    by (simp add: pieceType_def)
  have 22: "origin (mv 19 28) = 19" "destination (mv 19 28) = 28" by (simp_all add: mv_def)
  have 23: "pveGame\<lparr>board := BoardObject (BoardArray []), total_moves := 4\<rparr>
      = pveGame\<lparr>total_moves := 4\<rparr>"
    by (simp add: pveGame_def)
  show ?thesis
    using executeMove_ai_substitution [OF 1 2 3 4 5 6 7 8 9 10 11 12 13 14] 10 16 17 18
    by (simp add: 15 19 20 21 22 23 MOVE_COST_def)
qed

section \<open>Closing a finished game\<close>



section \<open>Move counter and record numbers\<close>



end
